theory Spec2Isabelle
  imports Main
begin

section \<open>Python values\<close>

text \<open>
  The resource layer of \<^verbatim>\<open>flask_rest_jsonapi/resource.py\<close> handles
  dynamically typed values: parsed JSON bodies, serialized documents, storage objects.
  They are all values of one type. A Python dict keeps its keys in insertion order and
  has no duplicate key; it is an association list that \<open>dict_set\<close> keeps duplicate free.
\<close>

datatype json =
    JNull
  | JBool bool
  | JInt int
  | JStr string
  | JList "json list"
  | JObj "(string \<times> json) list"

type_synonym dict = "(string \<times> json) list"

text \<open>\<^verbatim>\<open>d[k] = v\<close> on a dict: the value of an existing key is replaced in place,
  a new key goes last.\<close>

fun dict_set :: "string \<Rightarrow> json \<Rightarrow> dict \<Rightarrow> dict" where
  "dict_set k v [] = [(k, v)]"
| "dict_set k v ((k', v') # d) =
     (if k' = k then (k, v) # d else (k', v') # dict_set k v d)"

text \<open>Truth value of a Python object, as \<^verbatim>\<open>if errors:\<close> reads it.\<close>

fun py_truthy :: "json \<Rightarrow> bool" where
  "py_truthy JNull = False"
| "py_truthy (JBool b) = b"
| "py_truthy (JInt i) = (i \<noteq> 0)"
| "py_truthy (JStr s) = (s \<noteq> [])"
| "py_truthy (JList xs) = (xs \<noteq> [])"
| "py_truthy (JObj d) = (d \<noteq> [])"

section \<open>Exceptions\<close>

text \<open>
  The classes of \<^verbatim>\<open>flask_rest_jsonapi.exceptions\<close> that the resource layer
  imports, with the base class. An instance carries the \<^verbatim>\<open>source\<close> and
  \<^verbatim>\<open>detail\<close> arguments it was built with. Every other Python exception
  (\<^verbatim>\<open>KeyError\<close>, \<^verbatim>\<open>TypeError\<close>, ...) is \<open>PyError\<close> with the name
  of its class.
\<close>

datatype exc_class =
    JsonApiException
  | BadRequest
  | InvalidType
  | RelationNotFound
  | ObjectNotFound
  | NotModified
  | PreconditionFailed

datatype py_exn =
    JsonApi exc_class json string
  | PyError string

text \<open>
  Modelled from the spec: the \<^verbatim>\<open>status\<close> attribute of each exception class
  (module \<^verbatim>\<open>flask_rest_jsonapi.exceptions\<close>), from the taxonomy of section 7:
  BadRequest 400, InvalidType 409, RelationNotFound 404, ObjectNotFound 404,
  PreconditionFailed 412, NotModified 304, and 500 for the base class.
\<close>

fun exc_status :: "exc_class \<Rightarrow> int" where
  "exc_status JsonApiException = 500"
| "exc_status BadRequest = 400"
| "exc_status InvalidType = 409"
| "exc_status RelationNotFound = 404"
| "exc_status ObjectNotFound = 404"
| "exc_status NotModified = 304"
| "exc_status PreconditionFailed = 412"

section \<open>Operators on dynamically typed values\<close>

text \<open>Is \<open>k\<close> a contiguous part of \<open>s\<close>: Python's \<^verbatim>\<open>k in s\<close> on two strings.\<close>

fun starts_with :: "string \<Rightarrow> string \<Rightarrow> bool" where
  "starts_with [] s = True"
| "starts_with (a # k) [] = False"
| "starts_with (a # k) (b # s) = (a = b \<and> starts_with k s)"

fun substring :: "string \<Rightarrow> string \<Rightarrow> bool" where
  "substring k [] = (k = [])"
| "substring k (b # s) = (starts_with k (b # s) \<or> substring k s)"

text \<open>
  \<^verbatim>\<open>k in x\<close> with a string \<open>k\<close>: a key test on a dict, a membership test on a
  list, a substring test on a string, and a \<^verbatim>\<open>TypeError\<close> on None, a bool or a
  number.
\<close>

fun py_in :: "string \<Rightarrow> json \<Rightarrow> py_exn + bool" where
  "py_in k (JObj d) = Inr (k \<in> set (map fst d))"
| "py_in k (JList xs) = Inr (JStr k \<in> set xs)"
| "py_in k (JStr s) = Inr (substring k s)"
| "py_in k JNull = Inl (PyError ''TypeError'')"
| "py_in k (JBool b) = Inl (PyError ''TypeError'')"
| "py_in k (JInt i) = Inl (PyError ''TypeError'')"

text \<open>
  \<^verbatim>\<open>x[k]\<close> with a string \<open>k\<close>: a lookup on a dict (\<^verbatim>\<open>KeyError\<close> when the key
  is missing) and a \<^verbatim>\<open>TypeError\<close> on everything else.
\<close>

fun py_getitem :: "json \<Rightarrow> string \<Rightarrow> py_exn + json" where
  "py_getitem (JObj d) k =
     (case map_of d k of None \<Rightarrow> Inl (PyError ''KeyError'') | Some v \<Rightarrow> Inr v)"
| "py_getitem JNull k = Inl (PyError ''TypeError'')"
| "py_getitem (JBool b) k = Inl (PyError ''TypeError'')"
| "py_getitem (JInt i) k = Inl (PyError ''TypeError'')"
| "py_getitem (JStr s) k = Inl (PyError ''TypeError'')"
| "py_getitem (JList xs) k = Inl (PyError ''TypeError'')"

text \<open>\<^verbatim>\<open>x[k] = v\<close> with a string \<open>k\<close>: only a dict accepts it.\<close>

fun py_setitem :: "json \<Rightarrow> string \<Rightarrow> json \<Rightarrow> py_exn + json" where
  "py_setitem (JObj d) k v = Inr (JObj (dict_set k v d))"
| "py_setitem JNull k v = Inl (PyError ''TypeError'')"
| "py_setitem (JBool b) k v = Inl (PyError ''TypeError'')"
| "py_setitem (JInt i) k v = Inl (PyError ''TypeError'')"
| "py_setitem (JStr s) k v = Inl (PyError ''TypeError'')"
| "py_setitem (JList xs) k v = Inl (PyError ''TypeError'')"

text \<open>
  The elements a \<^verbatim>\<open>for\<close> loop visits: the elements of a list, the keys of a
  dict, the characters of a string; anything else is not iterable.
\<close>

fun py_iter :: "json \<Rightarrow> py_exn + json list" where
  "py_iter (JList xs) = Inr xs"
| "py_iter (JObj d) = Inr (map (\<lambda>p. JStr (fst p)) d)"
| "py_iter (JStr s) = Inr (map (\<lambda>c. JStr [c]) s)"
| "py_iter JNull = Inl (PyError ''TypeError'')"
| "py_iter (JBool b) = Inl (PyError ''TypeError'')"
| "py_iter (JInt i) = Inl (PyError ''TypeError'')"

section \<open>Strings\<close>

text \<open>\<^verbatim>\<open>s.split(c)\<close> for a one-character separator: never an empty list.\<close>

fun split_on :: "char \<Rightarrow> string \<Rightarrow> string list" where
  "split_on c [] = [[]]"
| "split_on c (x # xs) =
     (if x = c then [] # split_on c xs
      else (case split_on c xs of
              [] \<Rightarrow> [[x]]
            | w # ws \<Rightarrow> (x # w) # ws))"

text \<open>
  \<^verbatim>\<open>s.strip()\<close>: the characters Python's \<^verbatim>\<open>str.isspace\<close> accepts among
  the first 256 code points are removed at both ends.
\<close>

definition is_space :: "char \<Rightarrow> bool" where
  "is_space c = ((of_char c :: nat) \<in> {9, 10, 11, 12, 13, 28, 29, 30, 31, 32, 133, 160})"

definition strip :: "string \<Rightarrow> string" where
  "strip s = rev (dropWhile is_space (rev (dropWhile is_space s)))"

text \<open>\<^verbatim>\<open>s.lower()\<close> on the letters A to Z.\<close>

definition lower_char :: "char \<Rightarrow> char" where
  "lower_char c =
     (if 65 \<le> (of_char c :: nat) \<and> (of_char c :: nat) \<le> 90
      then char_of ((of_char c :: nat) + 32) else c)"

definition lower :: "string \<Rightarrow> string" where
  "lower s = map lower_char s"

text \<open>\<^verbatim>\<open>s.replace('-', '_')\<close>.\<close>

definition dash_to_underscore :: "string \<Rightarrow> string" where
  "dash_to_underscore s = map (\<lambda>c. if c = CHR ''-'' then CHR ''_'' else c) s"

text \<open>\<^verbatim>\<open>str(n)\<close> of an integer: its decimal digits, with a sign when negative.\<close>

fun str_nat :: "nat \<Rightarrow> string" where
  "str_nat n =
     (if n < 10 then [char_of (48 + n)]
      else str_nat (n div 10) @ [char_of (48 + n mod 10)])"

declare str_nat.simps [simp del]

definition str_int :: "int \<Rightarrow> string" where
  "str_int i = (if i < 0 then CHR ''-'' # str_nat (nat (- i)) else str_nat (nat i))"

text \<open>
  A route variable of the URL is a string or an integer (the routing converters
  \<^verbatim>\<open>string\<close> and \<^verbatim>\<open>int\<close>); \<open>py_str\<close> is \<^verbatim>\<open>str(v)\<close> on it.
\<close>

datatype urlval = UStr string | UInt int

fun py_str :: "urlval \<Rightarrow> string" where
  "py_str (UStr s) = s"
| "py_str (UInt i) = str_int i"

type_synonym kwargs = "(string \<times> urlval) list"

section \<open>Configuration, request and response\<close>

text \<open>
  The flags of \<^verbatim>\<open>current_app.config\<close> that the resource layer reads. The code
  tests them with \<^verbatim>\<open>is True\<close> and \<^verbatim>\<open>is False\<close>; the flags are booleans.
\<close>

record config =
  cfg_DEBUG :: bool
  cfg_PROPOGATE_ERROR :: bool
  cfg_ETAG :: bool
  cfg_SOFT_DELETE :: bool
  cfg_DASHERIZE_API :: bool

text \<open>
  What the handlers read of Flask's \<^verbatim>\<open>request\<close>: the method, the path, the query
  parameters (\<^verbatim>\<open>request.args\<close>), the headers and the parsed body
  (\<^verbatim>\<open>request.get_json()\<close>). \<^verbatim>\<open>.get(k)\<close> on the parameters and on the headers
  is \<open>map_of\<close>: the first value of the key, or None.
\<close>

record request =
  req_method :: string
  req_path :: string
  req_args :: "(string \<times> string) list"
  req_headers :: "(string \<times> string) list"
  req_json :: json

text \<open>
  A response: the body, the status code and the header list.
  \<^verbatim>\<open>make_response(body, status, headers)\<close> builds one from its three arguments.
\<close>

record response =
  resp_data :: string
  resp_status :: int
  resp_headers :: dict

definition make_response :: "string \<Rightarrow> int \<Rightarrow> dict \<Rightarrow> response" where
  "make_response body st hs = \<lparr>resp_data = body, resp_status = st, resp_headers = hs\<rparr>"

text \<open>\<^verbatim>\<open>headers.add(k, v)\<close> appends a header line.\<close>

definition headers_add :: "string \<Rightarrow> json \<Rightarrow> dict \<Rightarrow> dict" where
  "headers_add k v hs = hs @ [(k, v)]"

text \<open>
  \<^verbatim>\<open>headers[k] = v\<close> on a header list: the new line replaces the first line of
  that key and every other line of the key is removed; with no such line it goes last.
\<close>

fun headers_set :: "string \<Rightarrow> json \<Rightarrow> dict \<Rightarrow> dict" where
  "headers_set k v [] = [(k, v)]"
| "headers_set k v ((k', v') # hs) =
     (if k' = k then (k, v) # filter (\<lambda>p. fst p \<noteq> k) hs
      else (k', v') # headers_set k v hs)"

text \<open>
  The library functions the resource layer calls and this repository does not define,
  taken as parameters: \<^verbatim>\<open>json.dumps\<close>, \<^verbatim>\<open>hashlib.sha1(b).hexdigest()\<close>,
  \<^verbatim>\<open>JsonApiException.to_dict\<close>, \<^verbatim>\<open>jsonapi_errors\<close>, \<^verbatim>\<open>str(e)\<close> of an
  exception, the \<^verbatim>\<open>include\<close> property of the query string manager, and the clock
  (\<^verbatim>\<open>str(datetime.now(pytz.utc))\<close>).
\<close>

record env =
  json_dumps :: "json \<Rightarrow> string"
  sha1_hexdigest :: "string \<Rightarrow> string"
  to_dict :: "exc_class \<Rightarrow> json \<Rightarrow> string \<Rightarrow> json"
  jsonapi_errors :: "json list \<Rightarrow> json"
  exc_str :: "py_exn \<Rightarrow> string"
  qs_include :: "(string \<times> string) list \<Rightarrow> string list"
  now_utc :: string

section \<open>Schema and storage\<close>

text \<open>
  A declared field of a schema is a plain field or a relationship, which carries
  \<^verbatim>\<open>type_\<close> and \<^verbatim>\<open>id_field\<close>.
\<close>

datatype field = Field | Relationship string string

text \<open>
  \<^verbatim>\<open>compute_schema(schema, kwargs, qs, include)\<close> configures a schema instance;
  the instance is the record of what it was configured with.
\<close>

record schema_inst =
  si_kwargs :: dict
  si_args :: "(string \<times> string) list"
  si_include :: "string list"

definition compute_schema :: "dict \<Rightarrow> (string \<times> string) list \<Rightarrow> string list \<Rightarrow> schema_inst" where
  "compute_schema kws qs include = \<lparr>si_kwargs = kws, si_args = qs, si_include = include\<rparr>"

text \<open>
  \<^verbatim>\<open>schema.load(json_data)\<close> returns the pair \<^verbatim>\<open>(data, errors)\<close>, or raises
  \<^verbatim>\<open>IncorrectTypeError\<close> or \<^verbatim>\<open>ValidationError\<close>, each with its
  \<^verbatim>\<open>messages\<close>, or raises something else.
\<close>

datatype load_result =
    Loaded json json
  | IncorrectTypeError json
  | ValidationError json
  | LoadError py_exn

record schema =
  schema_name :: string
  declared_fields :: "(string \<times> field) list"
  model_field :: "string \<Rightarrow> string"
  schema_load :: "schema_inst \<Rightarrow> json \<Rightarrow> load_result"
  schema_dump :: "schema_inst \<Rightarrow> json \<Rightarrow> dict"

text \<open>
  Modelled from the spec: the values of \<^verbatim>\<open>get_relationships(schema)\<close> (module
  \<^verbatim>\<open>flask_rest_jsonapi.schema\<close>) are the names of the declared relationships
  (section 4.2: resolution fails if the segment does not name a declared relationship).
\<close>

fun is_relationship :: "field \<Rightarrow> bool" where
  "is_relationship Field = False"
| "is_relationship (Relationship ty idf) = True"

definition get_relationships :: "schema \<Rightarrow> string list" where
  "get_relationships sch = map fst (filter (\<lambda>p. is_relationship (snd p)) (declared_fields sch))"

text \<open>
  The calls the handlers make on the data layer, in the order they are made, with
  their arguments. \<^verbatim>\<open>get_object\<close> takes the keyword \<^verbatim>\<open>get_trashed\<close> or is
  called without it (\<open>None\<close>).
\<close>

datatype call =
    GetObject kwargs "bool option"
  | CreateObject json kwargs
  | UpdateObject json json kwargs
  | DeleteObject json kwargs
  | CreateRelationship json string string kwargs
  | UpdateRelationship json string string kwargs
  | DeleteRelationship json string string kwargs

text \<open>
  The data layer: each operation returns or raises. \<^verbatim>\<open>get_object\<close> returns an
  object or None; \<^verbatim>\<open>update_object\<close> changes the object it is given, and the
  model returns the changed object; the relationship operations return the owning
  object and whether something changed.
\<close>

record data_layer =
  get_object :: "kwargs \<Rightarrow> bool option \<Rightarrow> py_exn + json option"
  create_object :: "json \<Rightarrow> kwargs \<Rightarrow> py_exn + json"
  update_object :: "json \<Rightarrow> json \<Rightarrow> kwargs \<Rightarrow> py_exn + json"
  delete_object :: "json \<Rightarrow> kwargs \<Rightarrow> py_exn + unit"
  create_relationship :: "json \<Rightarrow> string \<Rightarrow> string \<Rightarrow> kwargs \<Rightarrow> py_exn + (json \<times> bool)"
  update_relationship :: "json \<Rightarrow> string \<Rightarrow> string \<Rightarrow> kwargs \<Rightarrow> py_exn + (json \<times> bool)"
  delete_relationship :: "json \<Rightarrow> string \<Rightarrow> string \<Rightarrow> kwargs \<Rightarrow> py_exn + (json \<times> bool)"

text \<open>
  The class attributes of a resource: its schema, its data layer instance
  (\<^verbatim>\<open>_data_layer\<close>), the \<^verbatim>\<open>url_field\<close> entry of its \<^verbatim>\<open>data_layer\<close> dict
  when there is one, and the keyword dicts \<^verbatim>\<open>get_schema_kwargs\<close>,
  \<^verbatim>\<open>post_schema_kwargs\<close> and \<^verbatim>\<open>patch_schema_kwargs\<close> (read with
  \<^verbatim>\<open>getattr(self, name, dict())\<close>: a missing one is the empty dict). The
  \<^verbatim>\<open>before_*\<close> and \<^verbatim>\<open>after_*\<close> hooks are the ones the source defines:
  they do nothing. The decorators \<^verbatim>\<open>check_headers\<close> and
  \<^verbatim>\<open>check_method_requirements\<close> belong to another module; a handler here is the
  decorated function's body, run on a request that passed them.
\<close>

record resource =
  res_schema :: schema
  res_data_layer :: data_layer
  res_url_field :: "string option"
  get_schema_kwargs :: dict
  post_schema_kwargs :: dict
  patch_schema_kwargs :: dict

text \<open>
  What a handler hands back: a \<^verbatim>\<open>Response\<close> object, a bare value, or a tuple.
  Tuples of two and of three components are the ones the dispatcher unpacks; a tuple of
  any other length is \<open>RTupleOther\<close> with its length.
\<close>

datatype retval =
    RResponse response
  | RValue json
  | RTuple2 json int
  | RTuple3 json int dict
  | RTupleOther nat

type_synonym outcome = "call list \<times> (py_exn + retval)"

type_synonym handler = "request \<Rightarrow> kwargs \<Rightarrow> outcome"

section \<open>Sequencing\<close>

text \<open>A statement that raises ends the handler: the next one runs on a result only.\<close>

definition and_then :: "py_exn + 'a \<Rightarrow> ('a \<Rightarrow> py_exn + 'b) \<Rightarrow> py_exn + 'b" where
  "and_then r f = (case r of Inl x \<Rightarrow> Inl x | Inr v \<Rightarrow> f v)"

section \<open>Load errors\<close>

text \<open>
  The loops of \<^verbatim>\<open>ResourceList.post\<close> and \<^verbatim>\<open>ResourceDetail.patch\<close> over
  \<^verbatim>\<open>errors['errors']\<close>: each entry gets its \<^verbatim>\<open>status\<close> and its
  \<^verbatim>\<open>title\<close> set. The entries are changed in place, so the document that is
  returned holds the stamped entries.
\<close>

fun stamp_all :: "string \<Rightarrow> string \<Rightarrow> json list \<Rightarrow> py_exn + json list" where
  "stamp_all st ti [] = Inr []"
| "stamp_all st ti (e # es) =
     and_then (py_setitem e ''status'' (JStr st)) (\<lambda>e1.
     and_then (py_setitem e1 ''title'' (JStr ti)) (\<lambda>e2.
     and_then (stamp_all st ti es) (\<lambda>es'. Inr (e2 # es'))))"

definition stamp_errors :: "string \<Rightarrow> string \<Rightarrow> json \<Rightarrow> py_exn + json" where
  "stamp_errors st ti errors =
     and_then (py_getitem errors ''errors'') (\<lambda>es.
     and_then (py_iter es) (\<lambda>xs.
     and_then (stamp_all st ti xs) (\<lambda>xs'.
       Inr (case es of
              JList old \<Rightarrow>
                (case errors of JObj d \<Rightarrow> JObj (dict_set ''errors'' (JList xs') d) | _ \<Rightarrow> errors)
            | _ \<Rightarrow> errors))))"

text \<open>\<^verbatim>\<open>for error in errors['errors']: ...; return errors, code\<close>.\<close>

definition return_errors :: "string \<Rightarrow> string \<Rightarrow> int \<Rightarrow> json \<Rightarrow> py_exn + retval" where
  "return_errors st ti code errors =
     and_then (stamp_errors st ti errors) (\<lambda>errors'. Inr (RTuple2 errors' code))"

section \<open>Messages\<close>

text \<open>The \<^verbatim>\<open>detail\<close> texts of the source that hold a double quote.\<close>

definition missing_data_message :: string where
  \<open>missing_data_message = ''You must provide data with a "data" route node''\<close>

definition missing_type_message :: string where
  \<open>missing_type_message = ''Missing type in "data" node''\<close>

definition missing_id_message :: string where
  \<open>missing_id_message = ''Missing id in "data" node''\<close>

section \<open>Collection resource\<close>

definition ResourceList_post :: "env \<Rightarrow> resource \<Rightarrow> handler" where
  "ResourceList_post env res req kw =
     (let json_data = req_json req;
          sch = compute_schema (post_schema_kwargs res) (req_args req) (qs_include env (req_args req))
      in case schema_load (res_schema res) sch json_data of
           IncorrectTypeError m \<Rightarrow> ([], return_errors ''409'' ''Incorrect type'' 409 m)
         | ValidationError m \<Rightarrow> ([], return_errors ''422'' ''Validation error'' 422 m)
         | LoadError x \<Rightarrow> ([], Inl x)
         | Loaded data errors \<Rightarrow>
             if py_truthy errors then ([], return_errors ''422'' ''Validation error'' 422 errors)
             else
               (case create_object (res_data_layer res) data kw of
                  Inl x \<Rightarrow> ([CreateObject data kw], Inl x)
                | Inr obj \<Rightarrow>
                    (let result = JObj (schema_dump (res_schema res) sch obj)
                     in ([CreateObject data kw],
                         and_then (py_getitem result ''data'') (\<lambda>d.
                         and_then (py_getitem d ''links'') (\<lambda>l.
                         and_then (py_getitem l ''self'') (\<lambda>self_link.
                           Inr (RTuple3 result 201 [(''Location'', self_link)]))))))))"

section \<open>Single-item resource\<close>

definition object_not_found :: py_exn where
  "object_not_found = JsonApi ObjectNotFound (JObj [(''pointer'', JStr [])]) ''Object Not Found''"

definition ResourceDetail_get :: "env \<Rightarrow> resource \<Rightarrow> handler" where
  "ResourceDetail_get env res req kw =
     (let flag = (if map_of (req_args req) ''get_trashed'' = Some ''true'' then Some True else None)
      in case get_object (res_data_layer res) kw flag of
           Inl x \<Rightarrow> ([GetObject kw flag], Inl x)
         | Inr None \<Rightarrow> ([GetObject kw flag], Inl object_not_found)
         | Inr (Some obj) \<Rightarrow>
             (let sch = compute_schema (get_schema_kwargs res) (req_args req)
                          (qs_include env (req_args req))
              in ([GetObject kw flag], Inr (RValue (JObj (schema_dump (res_schema res) sch obj))))))"

definition ResourceDetail_patch :: "env \<Rightarrow> resource \<Rightarrow> handler" where
  "ResourceDetail_patch env res req kw =
     (let json_data = req_json req;
          schema_kwargs = dict_set ''partial'' (JBool True) (patch_schema_kwargs res);
          sch = compute_schema schema_kwargs (req_args req) (qs_include env (req_args req))
      in case schema_load (res_schema res) sch json_data of
           IncorrectTypeError m \<Rightarrow> ([], return_errors ''409'' ''Incorrect type'' 409 m)
         | ValidationError m \<Rightarrow> ([], return_errors ''422'' ''Validation error'' 422 m)
         | LoadError x \<Rightarrow> ([], Inl x)
         | Loaded data errors \<Rightarrow>
             if py_truthy errors then ([], return_errors ''422'' ''Validation error'' 422 errors)
             else
               (case and_then (py_getitem json_data ''data'') (py_in ''id'') of
                  Inl x \<Rightarrow> ([], Inl x)
                | Inr False \<Rightarrow>
                    ([], Inl (JsonApi BadRequest (JStr ''/data/id'') missing_id_message))
                | Inr True \<Rightarrow>
                    (case and_then (py_getitem json_data ''data'') (\<lambda>d. py_getitem d ''id'') of
                       Inl x \<Rightarrow> ([], Inl x)
                     | Inr body_id \<Rightarrow>
                         (case map_of kw (case res_url_field res of None \<Rightarrow> ''id'' | Some f \<Rightarrow> f) of
                            None \<Rightarrow> ([], Inl (PyError ''KeyError''))
                          | Some url_id \<Rightarrow>
                              if body_id \<noteq> JStr (py_str url_id)
                              then ([], Inl (JsonApi BadRequest (JStr ''/data/id'')
                                      ''Value of id does not match the resource identifier in url''))
                              else
                                (let flag = (if map_of (req_args req) ''get_trashed'' = Some ''true''
                                             then Some True else None)
                                 in case get_object (res_data_layer res) kw flag of
                                      Inl x \<Rightarrow> ([GetObject kw flag], Inl x)
                                    | Inr None \<Rightarrow> ([GetObject kw flag], Inl object_not_found)
                                    | Inr (Some obj) \<Rightarrow>
                                        (case update_object (res_data_layer res) obj data kw of
                                           Inl x \<Rightarrow>
                                             ([GetObject kw flag, UpdateObject obj data kw], Inl x)
                                         | Inr obj' \<Rightarrow>
                                             ([GetObject kw flag, UpdateObject obj data kw],
                                              Inr (RValue (JObj
                                                (schema_dump (res_schema res) sch obj'))))))))))"

definition ResourceDetail_delete :: "env \<Rightarrow> config \<Rightarrow> resource \<Rightarrow> handler" where
  "ResourceDetail_delete env cfg res req kw =
     (let permanent = (map_of (req_args req) ''permanent'' = Some ''true'');
          fetch = GetObject kw (Some permanent);
          result = JObj [(''meta'', JObj [(''message'', JStr ''Object successfully deleted'')])]
      in case get_object (res_data_layer res) kw (Some permanent) of
           Inl x \<Rightarrow> ([fetch], Inl x)
         | Inr None \<Rightarrow> ([fetch], Inl object_not_found)
         | Inr (Some obj) \<Rightarrow>
             if ''deleted_at'' \<notin> set (map fst (declared_fields (res_schema res)))
                \<or> permanent \<or> cfg_SOFT_DELETE cfg = False
             then
               (case delete_object (res_data_layer res) obj kw of
                  Inl x \<Rightarrow> ([fetch, DeleteObject obj kw], Inl x)
                | Inr u \<Rightarrow> ([fetch, DeleteObject obj kw], Inr (RValue result)))
             else
               (let data = JObj [(''deleted_at'', JStr (now_utc env))]
                in case update_object (res_data_layer res) obj data kw of
                     Inl x \<Rightarrow> ([fetch, UpdateObject obj data kw], Inl x)
                   | Inr obj' \<Rightarrow> ([fetch, UpdateObject obj data kw], Inr (RValue result))))"

text \<open>The verbs of a single-item resource: \<^verbatim>\<open>getattr(self, name, None)\<close>.\<close>

definition ResourceDetail :: "env \<Rightarrow> config \<Rightarrow> resource \<Rightarrow> string \<Rightarrow> handler option" where
  "ResourceDetail env cfg res name =
     (if name = ''get'' then Some (ResourceDetail_get env res)
      else if name = ''patch'' then Some (ResourceDetail_patch env res)
      else if name = ''delete'' then Some (ResourceDetail_delete env cfg res)
      else None)"

section \<open>Relationship resource\<close>

text \<open>
  \<^verbatim>\<open>_get_relationship_data\<close>: the relationship is named by the last segment of
  the path. The result is the relationship field, the model relationship field, the
  related type and the related id field, in this order.
\<close>

definition get_relationship_data ::
  "config \<Rightarrow> resource \<Rightarrow> request \<Rightarrow> py_exn + (string \<times> string \<times> string \<times> string)" where
  "get_relationship_data cfg res req =
     (let segment = last (split_on CHR ''/'' (req_path req));
          relationship_field =
            (if cfg_DASHERIZE_API cfg then dash_to_underscore segment else segment);
          sch = res_schema res
      in if relationship_field \<in> set (get_relationships sch)
         then
           (case map_of (declared_fields sch) relationship_field of
              None \<Rightarrow> Inl (PyError ''KeyError'')
            | Some Field \<Rightarrow> Inl (PyError ''AttributeError'')
            | Some (Relationship related_type related_id_field) \<Rightarrow>
                Inr (relationship_field, model_field sch relationship_field,
                     related_type, related_id_field))
         else Inl (JsonApi RelationNotFound (JStr [])
                     (schema_name sch @ '' has no attribute '' @ relationship_field)))"

text \<open>
  The checks that \<^verbatim>\<open>post\<close>, \<^verbatim>\<open>patch\<close> and \<^verbatim>\<open>delete\<close> of a
  relationship each make on the body before anything else, statement for statement the
  same in the three handlers. \<open>check_linkage\<close> is the three tests on one linkage
  object; its first argument is the detail text of the type mismatch, which differs
  between the single object and the elements of a list.
\<close>

definition check_linkage :: "string \<Rightarrow> string \<Rightarrow> json \<Rightarrow> py_exn + unit" where
  "check_linkage mismatch related_type obj =
     and_then (py_in ''type'' obj) (\<lambda>has_type.
       if has_type then
         and_then (py_in ''id'' obj) (\<lambda>has_id.
           if has_id then
             and_then (py_getitem obj ''type'') (\<lambda>ty.
               if ty \<noteq> JStr related_type
               then Inl (JsonApi InvalidType (JStr ''/data/type'') mismatch)
               else Inr ())
           else Inl (JsonApi BadRequest (JStr ''/data/id'') missing_id_message))
       else Inl (JsonApi BadRequest (JStr ''/data/type'') missing_type_message))"

fun check_each :: "string \<Rightarrow> json list \<Rightarrow> py_exn + unit" where
  "check_each related_type [] = Inr ()"
| "check_each related_type (obj # objs) =
     and_then
       (check_linkage ''The type provided does not match the resource type'' related_type obj)
       (\<lambda>u. check_each related_type objs)"

definition check_relationship_body :: "json \<Rightarrow> string \<Rightarrow> py_exn + unit" where
  "check_relationship_body json_data related_type =
     and_then (py_in ''data'' json_data) (\<lambda>has_data.
       if has_data then
         and_then (py_getitem json_data ''data'') (\<lambda>d.
           and_then
             (case d of
                JObj kv \<Rightarrow>
                  check_linkage ''The type field does not match the resource type'' related_type d
              | _ \<Rightarrow> Inr ())
             (\<lambda>u. case d of JList objs \<Rightarrow> check_each related_type objs | _ \<Rightarrow> Inr ()))
       else Inl (JsonApi BadRequest (JStr ''/data'') missing_data_message))"

text \<open>
  The schema a relationship result is serialized with: the relationship field is
  appended to the includes of the query string unless it is among them.
\<close>

definition relationship_schema :: "env \<Rightarrow> request \<Rightarrow> string \<Rightarrow> schema_inst" where
  "relationship_schema env req relationship_field =
     (let include = qs_include env (req_args req);
          includes = (if relationship_field \<in> set include then include
                      else include @ [relationship_field])
      in compute_schema [] (req_args req) includes)"

text \<open>
  \<^verbatim>\<open>if result.get('links', {}).get('self') is not None:
      result['links']['self'] = request.path\<close>
\<close>

definition rewrite_self_link :: "string \<Rightarrow> dict \<Rightarrow> py_exn + dict" where
  "rewrite_self_link path result =
     (case map_of result ''links'' of
        None \<Rightarrow> Inr result
      | Some (JObj links) \<Rightarrow>
          (case map_of links ''self'' of
             None \<Rightarrow> Inr result
           | Some JNull \<Rightarrow> Inr result
           | Some v \<Rightarrow>
               Inr (dict_set ''links'' (JObj (dict_set ''self'' (JStr path) links)) result))
      | Some other \<Rightarrow> Inl (PyError ''AttributeError''))"

definition ResourceRelationship_post :: "env \<Rightarrow> config \<Rightarrow> resource \<Rightarrow> handler" where
  "ResourceRelationship_post env cfg res req kw =
     (let json_data = req_json req
      in case get_relationship_data cfg res req of
           Inl x \<Rightarrow> ([], Inl x)
         | Inr (relationship_field, model_relationship_field, related_type, related_id_field) \<Rightarrow>
             (case check_relationship_body json_data related_type of
                Inl x \<Rightarrow> ([], Inl x)
              | Inr u \<Rightarrow>
                  (let c = CreateRelationship json_data model_relationship_field related_id_field kw
                   in case create_relationship (res_data_layer res) json_data
                             model_relationship_field related_id_field kw of
                        Inl x \<Rightarrow> ([c], Inl x)
                      | Inr (obj, updated) \<Rightarrow>
                          (let sch = relationship_schema env req relationship_field
                           in if updated = False then ([c], Inr (RTuple2 (JStr []) 204))
                              else
                                ([c],
                                 and_then
                                   (rewrite_self_link (req_path req)
                                      (schema_dump (res_schema res) sch obj))
                                   (\<lambda>result. Inr (RTuple2 (JObj result) 200)))))))"

definition ResourceRelationship_patch :: "env \<Rightarrow> config \<Rightarrow> resource \<Rightarrow> handler" where
  "ResourceRelationship_patch env cfg res req kw =
     (let json_data = req_json req
      in case get_relationship_data cfg res req of
           Inl x \<Rightarrow> ([], Inl x)
         | Inr (relationship_field, model_relationship_field, related_type, related_id_field) \<Rightarrow>
             (case check_relationship_body json_data related_type of
                Inl x \<Rightarrow> ([], Inl x)
              | Inr u \<Rightarrow>
                  (let c = UpdateRelationship json_data model_relationship_field related_id_field kw
                   in case update_relationship (res_data_layer res) json_data
                             model_relationship_field related_id_field kw of
                        Inl x \<Rightarrow> ([c], Inl x)
                      | Inr (obj, updated) \<Rightarrow>
                          (let sch = relationship_schema env req relationship_field
                           in if updated = False then ([c], Inr (RTuple2 (JStr []) 204))
                              else
                                ([c],
                                 and_then
                                   (rewrite_self_link (req_path req)
                                      (schema_dump (res_schema res) sch obj))
                                   (\<lambda>result. Inr (RTuple2 (JObj result) 200)))))))"

definition ResourceRelationship_delete :: "env \<Rightarrow> config \<Rightarrow> resource \<Rightarrow> handler" where
  "ResourceRelationship_delete env cfg res req kw =
     (let json_data = req_json req
      in case get_relationship_data cfg res req of
           Inl x \<Rightarrow> ([], Inl x)
         | Inr (relationship_field, model_relationship_field, related_type, related_id_field) \<Rightarrow>
             (case check_relationship_body json_data related_type of
                Inl x \<Rightarrow> ([], Inl x)
              | Inr u \<Rightarrow>
                  (let c = DeleteRelationship json_data model_relationship_field related_id_field kw
                   in case delete_relationship (res_data_layer res) json_data
                             model_relationship_field related_id_field kw of
                        Inl x \<Rightarrow> ([c], Inl x)
                      | Inr (obj, updated) \<Rightarrow>
                          (let sch = relationship_schema env req relationship_field;
                               status_code = (if updated = True then 200 else 204)
                           in ([c],
                               and_then
                                 (rewrite_self_link (req_path req)
                                    (schema_dump (res_schema res) sch obj))
                                 (\<lambda>result. Inr (RTuple2 (JObj result) status_code)))))))"

section \<open>The dispatcher\<close>

definition default_headers :: dict where
  "default_headers = [(''Content-Type'', JStr ''application/vnd.api+json'')]"

text \<open>
  \<^verbatim>\<open>make_response(json.dumps(jsonapi_errors([e.to_dict()])), e.status, headers)\<close>
\<close>

definition error_response :: "env \<Rightarrow> exc_class \<Rightarrow> json \<Rightarrow> string \<Rightarrow> dict \<Rightarrow> response" where
  "error_response env c source detail headers =
     make_response (json_dumps env (jsonapi_errors env [to_dict env c source detail]))
       (exc_status c) headers"

text \<open>\<^verbatim>\<open>if isinstance(data, dict): data.update({'jsonapi': {'version': '1.0'}})\<close>\<close>

definition stamp_version :: "json \<Rightarrow> json" where
  "stamp_version v =
     (case v of
        JObj d \<Rightarrow> JObj (dict_set ''jsonapi'' (JObj [(''version'', JStr ''1.0'')]) d)
      | _ \<Rightarrow> v)"

text \<open>
  The first half of the success path of \<^verbatim>\<open>dispatch_request\<close>: the value of the
  handler becomes the response \<^verbatim>\<open>resp\<close>. The second component of the result is
  the local variable \<^verbatim>\<open>headers\<close>, which the tuple of three rebinds. A tuple that
  is neither a pair nor a triple leaves \<^verbatim>\<open>data\<close> unbound.
\<close>

definition normalize_response :: "env \<Rightarrow> retval \<Rightarrow> py_exn + (response \<times> dict)" where
  "normalize_response env rv =
     (case rv of
        RResponse r \<Rightarrow>
          Inr (r\<lparr>resp_headers :=
                  headers_add ''Content-Type'' (JStr ''application/vnd.api+json'') (resp_headers r)\<rparr>,
               default_headers)
      | RValue v \<Rightarrow>
          Inr (make_response (json_dumps env (stamp_version v)) 200 default_headers,
               default_headers)
      | RTuple3 d status_code hs \<Rightarrow>
          (let headers = dict_set ''Content-Type'' (JStr ''application/vnd.api+json'') hs
           in Inr (make_response (json_dumps env (stamp_version d)) status_code headers, headers))
      | RTuple2 d status_code \<Rightarrow>
          Inr (make_response (json_dumps env (stamp_version d)) status_code default_headers,
               default_headers)
      | RTupleOther n \<Rightarrow> Inl (PyError ''UnboundLocalError''))"

text \<open>\<^verbatim>\<open>[tag.strip() for tag in header.split(',')]\<close>\<close>

definition etag_list :: "string \<Rightarrow> string list" where
  "etag_list header = map strip (split_on CHR '','' header)"

text \<open>
  The second half, under the comment \<^verbatim>\<open># ETag Handling\<close>: the whole block,
  with its \<^verbatim>\<open>return resp\<close>, is the body of
  \<^verbatim>\<open>if current_app.config['ETAG'] is True:\<close>, and nothing follows it. With the
  flag off the function ends without a \<^verbatim>\<open>return\<close>: its value is None.
  A header counts when it is there and not empty.
\<close>

definition etag_handling :: "env \<Rightarrow> config \<Rightarrow> request \<Rightarrow> response \<Rightarrow> dict \<Rightarrow> response option" where
  "etag_handling env cfg req resp headers =
     (if cfg_ETAG cfg then
        (let etag = sha1_hexdigest env (resp_data resp);
             resp' = resp\<lparr>resp_headers := headers_set ''ETag'' (JStr etag) (resp_headers resp)\<rparr>
         in case map_of (req_headers req) ''If-Match'' of
              Some (a # as) \<Rightarrow>
                if etag \<notin> set (etag_list (a # as)) \<and> ''*'' \<notin> set (etag_list (a # as))
                then Some (error_response env PreconditionFailed (JObj [(''pointer'', JStr [])])
                             ''Precondition failed'' headers)
                else Some resp'
            | _ \<Rightarrow>
                (case map_of (req_headers req) ''If-None-Match'' of
                   Some (b # bs) \<Rightarrow>
                     if etag \<in> set (etag_list (b # bs)) \<or> ''*'' \<in> set (etag_list (b # bs))
                     then Some (error_response env NotModified (JObj [(''pointer'', JStr [])])
                                  ''Resource not modified'' headers)
                     else Some resp'
                 | _ \<Rightarrow> Some resp'))
      else None)"

text \<open>
  \<^verbatim>\<open>Resource.dispatch_request\<close>. The first argument \<open>view\<close> is
  \<^verbatim>\<open>getattr(self, name, None)\<close>. The result is the calls made on the data layer
  and what the function does: it raises, it returns a response, or it returns None.
\<close>

definition dispatch_request ::
  "env \<Rightarrow> config \<Rightarrow> (string \<Rightarrow> handler option) \<Rightarrow> request \<Rightarrow> kwargs
     \<Rightarrow> call list \<times> (py_exn + response option)" where
  "dispatch_request env cfg view req kw =
     (case (case view (lower (req_method req)) of
              None \<Rightarrow> if req_method req = ''HEAD'' then view ''get'' else None
            | Some m \<Rightarrow> Some m) of
        None \<Rightarrow> ([], Inl (PyError ''AssertionError''))
      | Some method \<Rightarrow>
          (case method req kw of
             (calls, Inl (JsonApi c source detail)) \<Rightarrow>
               (calls, Inr (Some (error_response env c source detail default_headers)))
           | (calls, Inl (PyError name)) \<Rightarrow>
               if cfg_DEBUG cfg then (calls, Inl (PyError name))
               else
                 (calls,
                  Inr (Some (error_response env JsonApiException (JObj [(''pointer'', JStr [])])
                               (if cfg_PROPOGATE_ERROR cfg then exc_str env (PyError name)
                                else ''Unknown error'')
                               default_headers)))
           | (calls, Inr rv) \<Rightarrow>
               (case normalize_response env rv of
                  Inl x \<Rightarrow> (calls, Inl x)
                | Inr (resp, headers) \<Rightarrow> (calls, Inr (etag_handling env cfg req resp headers)))))"

section \<open>Observations\<close>

text \<open>What a client sees of a dispatch: the status of the response, if there is one.\<close>

definition emitted_status :: "call list \<times> (py_exn + response option) \<Rightarrow> int option" where
  "emitted_status r = (case snd r of Inr (Some resp) \<Rightarrow> Some (resp_status resp) | _ \<Rightarrow> None)"

text \<open>The status of the response the dispatcher builds from the value of a handler.\<close>

definition normalized_status :: "env \<Rightarrow> retval \<Rightarrow> int option" where
  "normalized_status env rv =
     (case normalize_response env rv of
        Inl x \<Rightarrow> None
      | Inr (resp, headers) \<Rightarrow> Some (resp_status resp))"

text \<open>
  The validator list of a request header: its comma-separated, whitespace-trimmed
  tokens, and no token at all when the header is missing or empty.
\<close>

definition validator_list :: "request \<Rightarrow> string \<Rightarrow> string list" where
  "validator_list req name =
     (case map_of (req_headers req) name of
        None \<Rightarrow> []
      | Some h \<Rightarrow> if h = [] then [] else etag_list h)"

text \<open>
  Does the conditional check answer a response of this body with 412 or 304: a
  non-empty \<^verbatim>\<open>If-Match\<close> list without the hash of the body and without
  \<^verbatim>\<open>*\<close>, or no \<^verbatim>\<open>If-Match\<close> list and an \<^verbatim>\<open>If-None-Match\<close> list with
  the hash or \<^verbatim>\<open>*\<close>.
\<close>

definition short_circuits :: "env \<Rightarrow> request \<Rightarrow> string \<Rightarrow> bool" where
  "short_circuits env req body =
     (let etag = sha1_hexdigest env body;
          if_match = validator_list req ''If-Match'';
          if_none_match = validator_list req ''If-None-Match''
      in (if_match \<noteq> [] \<and> etag \<notin> set if_match \<and> ''*'' \<notin> set if_match)
         \<or> (if_match = [] \<and> (etag \<in> set if_none_match \<or> ''*'' \<in> set if_none_match)))"

text \<open>The body and the header list of the response of a dispatch, if there is one.\<close>

definition emitted_body :: "call list \<times> (py_exn + response option) \<Rightarrow> string option" where
  "emitted_body r = (case snd r of Inr (Some resp) \<Rightarrow> Some (resp_data resp) | _ \<Rightarrow> None)"

definition emitted_headers :: "call list \<times> (py_exn + response option) \<Rightarrow> dict option" where
  "emitted_headers r = (case snd r of Inr (Some resp) \<Rightarrow> Some (resp_headers resp) | _ \<Rightarrow> None)"


text \<open>The self link of a serialized document, when it has one that is not None.\<close>

definition self_link :: "dict \<Rightarrow> json option" where
  "self_link doc =
     (case map_of doc ''links'' of
        Some (JObj links) \<Rightarrow>
          (case map_of links ''self'' of
             None \<Rightarrow> None
           | Some JNull \<Rightarrow> None
           | Some v \<Rightarrow> Some v)
      | _ \<Rightarrow> None)"

fun is_dict :: "json \<Rightarrow> bool" where
  "is_dict (JObj d) = True"
| "is_dict JNull = False"
| "is_dict (JBool b) = False"
| "is_dict (JInt i) = False"
| "is_dict (JStr s) = False"
| "is_dict (JList xs) = False"

text \<open>
  An error entry with its \<^verbatim>\<open>status\<close> and \<^verbatim>\<open>title\<close> set, and an error
  document whose entries all are.
\<close>

definition with_status_and_title :: "string \<Rightarrow> string \<Rightarrow> json \<Rightarrow> json" where
  "with_status_and_title st ti e =
     (case e of
        JObj d \<Rightarrow> JObj (dict_set ''title'' (JStr ti) (dict_set ''status'' (JStr st) d))
      | _ \<Rightarrow> e)"

definition error_document :: "string \<Rightarrow> string \<Rightarrow> dict \<Rightarrow> json list \<Rightarrow> json" where
  "error_document st ti messages entries =
     JObj (dict_set ''errors'' (JList (map (with_status_and_title st ti) entries)) messages)"

fun is_list :: "json \<Rightarrow> bool" where
  "is_list (JList xs) = True"
| "is_list JNull = False"
| "is_list (JBool b) = False"
| "is_list (JInt i) = False"
| "is_list (JStr s) = False"
| "is_list (JObj d) = False"

section \<open>An example application\<close>

text \<open>
  A concrete environment, configuration, schema, data layer and resource: articles
  with a soft-delete field and one relationship, \<^verbatim>\<open>author\<close>, to people. The
  theorems below are instantiated on them. Its \<^verbatim>\<open>json_dumps\<close> puts a string
  between double quotes, as \<^verbatim>\<open>json.dumps\<close> does with a string that needs no
  escape: the empty string is encoded as two characters.
\<close>

definition env0 :: env where
  "env0 =
     \<lparr>json_dumps = (\<lambda>v. case v of
                           JStr s \<Rightarrow> CHR 0x22 # s @ [CHR 0x22]
                         | JObj d \<Rightarrow> concat (map fst d)
                         | _ \<Rightarrow> ''other''),
      sha1_hexdigest = (\<lambda>b. ''h-'' @ b),
      to_dict = (\<lambda>c source detail. JObj [(''source'', source), (''detail'', JStr detail)]),
      jsonapi_errors = (\<lambda>es. JObj [(''errors'', JList es)]),
      exc_str = (\<lambda>e. ''error''),
      qs_include = (\<lambda>qs. case map_of qs ''include'' of
                            None \<Rightarrow> []
                          | Some i \<Rightarrow> split_on CHR '','' i),
      now_utc = ''2017-06-01 10:00:00+00:00''\<rparr>"

definition cfg0 :: config where
  "cfg0 = \<lparr>cfg_DEBUG = False, cfg_PROPOGATE_ERROR = False, cfg_ETAG = False,
           cfg_SOFT_DELETE = True, cfg_DASHERIZE_API = True\<rparr>"

definition obj1 :: json where
  "obj1 = JObj [(''id'', JStr ''1''), (''title'', JStr ''Hello''),
                (''links'', JObj [(''self'', JStr ''/articles/1'')])]"

definition schema0 :: schema where
  "schema0 =
     \<lparr>schema_name = ''ArticleSchema'',
      declared_fields = [(''id'', Field), (''title'', Field), (''deleted_at'', Field),
                         (''author'', Relationship ''people'' ''id'')],
      model_field = (\<lambda>f. f),
      schema_load = (\<lambda>si body.
         case py_getitem body ''data'' of
           Inl x \<Rightarrow>
             IncorrectTypeError
               (JObj [(''errors'', JList [JObj [(''detail'', JStr ''No data key'')]])])
         | Inr d \<Rightarrow>
             (case py_getitem d ''attributes'' of
                Inl x \<Rightarrow>
                  ValidationError
                    (JObj [(''errors'', JList [JObj [(''detail'', JStr ''No attributes'')],
                                               JObj [(''detail'', JStr ''No title'')]])])
              | Inr a \<Rightarrow> Loaded a (JObj []))),
      schema_dump = (\<lambda>si obj.
         [(''data'', obj), (''links'', JObj [(''self'', JStr ''/articles/1'')]),
          (''meta'', JObj [(''include'', JList (map JStr (si_include si)))])])\<rparr>"

definition dl0 :: data_layer where
  "dl0 =
     \<lparr>get_object = (\<lambda>kw flag.
         if map_of kw ''id'' = Some (UInt 1) then Inr (Some obj1) else Inr None),
      create_object = (\<lambda>data kw. Inr obj1),
      update_object = (\<lambda>obj data kw. Inr obj),
      delete_object = (\<lambda>obj kw. Inr ()),
      create_relationship = (\<lambda>json_data f i kw. Inr (obj1, True)),
      update_relationship = (\<lambda>json_data f i kw. Inr (obj1, False)),
      delete_relationship = (\<lambda>json_data f i kw. Inr (obj1, False))\<rparr>"

definition res0 :: resource where
  "res0 = \<lparr>res_schema = schema0, res_data_layer = dl0, res_url_field = None,
           get_schema_kwargs = [], post_schema_kwargs = [], patch_schema_kwargs = []\<rparr>"

definition req0 :: request where
  "req0 = \<lparr>req_method = ''GET'', req_path = ''/articles/1'', req_args = [],
           req_headers = [], req_json = JNull\<rparr>"

section \<open>Facts about the dispatcher\<close>

lemma split_on_not_Nil: "split_on c s \<noteq> []"
  by (induction s) (auto split: list.splits)

lemma map_of_headers_set: "map_of (headers_set k v hs) k = Some v"
  by (induction hs) auto

lemma resp_status_error_response [simp]:
  "resp_status (error_response env c source detail headers) = exc_status c"
  by (simp add: error_response_def make_response_def)

lemma dispatch_success:
  assumes "view (lower (req_method req)) = Some method"
    and "method req kw = (calls, Inr rv)"
    and "normalize_response env rv = Inr (resp, headers)"
  shows "dispatch_request env cfg view req kw =
           (calls, Inr (etag_handling env cfg req resp headers))"
  using assms by (simp add: dispatch_request_def)

lemma dispatch_jsonapi_error:
  assumes "view (lower (req_method req)) = Some method"
    and "method req kw = (calls, Inl (JsonApi c source detail))"
  shows "dispatch_request env cfg view req kw =
           (calls, Inr (Some (error_response env c source detail default_headers)))"
  using assms by (simp add: dispatch_request_def)

lemma lower_GET: "lower ''GET'' = ''get''"
  by code_simp

lemma lower_PATCH: "lower ''PATCH'' = ''patch''"
  by code_simp

lemma lower_DELETE: "lower ''DELETE'' = ''delete''"
  by code_simp

section \<open>The response of a successful verb\<close>

text \<open>
  Claim C1 says that the dispatcher emits the normalized response of every verb that
  returns, whether or not the ETag protocol is enabled. The code does not: with the
  \<^verbatim>\<open>ETAG\<close> flag off, a verb that returned and whose value was normalized into
  a response leaves \<^verbatim>\<open>dispatch_request\<close> returning None; the response that was
  built is dropped.
\<close>

theorem C1_no_response_when_etag_disabled:
  assumes "view (lower (req_method req)) = Some method"
    and "method req kw = (calls, Inr rv)"
    and "normalize_response env rv = Inr (resp, headers)"
    and "cfg_ETAG cfg = False"
  shows "dispatch_request env cfg view req kw = (calls, Inr None)"
  using assms by (simp add: dispatch_success etag_handling_def)

text \<open>
  The failing input: a \<^verbatim>\<open>DELETE\<close> of article 1 with the flag off. The handler
  soft-deletes the article and returns its message, which normalizes to a response of
  status 200, and the dispatcher returns None.
\<close>

theorem C1_no_response_when_etag_disabled_witness:
  "cfg_ETAG cfg0 = False
   \<and> ResourceDetail_delete env0 cfg0 res0 (req0\<lparr>req_method := ''DELETE''\<rparr>) [(''id'', UInt 1)]
       = ([GetObject [(''id'', UInt 1)] (Some False),
           UpdateObject obj1 (JObj [(''deleted_at'', JStr ''2017-06-01 10:00:00+00:00'')])
             [(''id'', UInt 1)]],
          Inr (RValue (JObj [(''meta'', JObj [(''message'', JStr ''Object successfully deleted'')])])))
   \<and> normalized_status env0
         (RValue (JObj [(''meta'', JObj [(''message'', JStr ''Object successfully deleted'')])]))
       = Some 200
   \<and> dispatch_request env0 cfg0 (ResourceDetail env0 cfg0 res0)
         (req0\<lparr>req_method := ''DELETE''\<rparr>) [(''id'', UInt 1)]
       = ([GetObject [(''id'', UInt 1)] (Some False),
           UpdateObject obj1 (JObj [(''deleted_at'', JStr ''2017-06-01 10:00:00+00:00'')])
             [(''id'', UInt 1)]],
          Inr None)"
proof -
  let ?req = "req0\<lparr>req_method := ''DELETE''\<rparr>"
  let ?kw = "[(''id'', UInt 1)]"
  let ?doc = "JObj [(''meta'', JObj [(''message'', JStr ''Object successfully deleted'')])]"
  let ?calls = "[GetObject ?kw (Some False),
                 UpdateObject obj1 (JObj [(''deleted_at'', JStr ''2017-06-01 10:00:00+00:00'')]) ?kw]"
  have flag: "cfg_ETAG cfg0 = False"
    by (simp add: cfg0_def)
  have view: "ResourceDetail env0 cfg0 res0 (lower (req_method ?req))
                = Some (ResourceDetail_delete env0 cfg0 res0)"
    by (simp add: ResourceDetail_def req0_def lower_DELETE)
  have run: "ResourceDetail_delete env0 cfg0 res0 ?req ?kw = (?calls, Inr (RValue ?doc))"
    by (simp add: ResourceDetail_delete_def req0_def res0_def dl0_def schema0_def cfg0_def
        env0_def)
  have norm: "normalize_response env0 (RValue ?doc)
                = Inr (make_response (json_dumps env0 (stamp_version ?doc)) 200 default_headers,
                       default_headers)"
    by (simp add: normalize_response_def)
  have st: "normalized_status env0 (RValue ?doc) = Some 200"
    by (simp add: normalized_status_def norm make_response_def)
  from C1_no_response_when_etag_disabled
    [where view = "ResourceDetail env0 cfg0 res0" and req = ?req and kw = ?kw,
      OF view run norm flag] flag run st
  show ?thesis by simp
qed

section \<open>Conditional requests\<close>

lemma etag_list_not_Nil: "etag_list h \<noteq> []"
  by (simp add: etag_list_def split_on_not_Nil)

lemma validator_list_empty:
  "validator_list req name = [] \<longleftrightarrow>
     map_of (req_headers req) name = None \<or> map_of (req_headers req) name = Some []"
  by (simp add: validator_list_def etag_list_not_Nil split: option.splits)

lemma validator_list_given:
  "map_of (req_headers req) name = Some (a # as) \<Longrightarrow>
     validator_list req name = etag_list (a # as)"
  by (simp add: validator_list_def)

lemma etag_handling_enabled:
  assumes "cfg_ETAG cfg"
  shows "etag_handling env cfg req resp headers =
           Some (if validator_list req ''If-Match'' \<noteq> []
                    \<and> sha1_hexdigest env (resp_data resp) \<notin> set (validator_list req ''If-Match'')
                    \<and> ''*'' \<notin> set (validator_list req ''If-Match'')
                 then error_response env PreconditionFailed (JObj [(''pointer'', JStr [])])
                        ''Precondition failed'' headers
                 else if validator_list req ''If-Match'' = []
                         \<and> (sha1_hexdigest env (resp_data resp)
                               \<in> set (validator_list req ''If-None-Match'')
                             \<or> ''*'' \<in> set (validator_list req ''If-None-Match''))
                 then error_response env NotModified (JObj [(''pointer'', JStr [])])
                        ''Resource not modified'' headers
                 else resp\<lparr>resp_headers :=
                             headers_set ''ETag'' (JStr (sha1_hexdigest env (resp_data resp)))
                               (resp_headers resp)\<rparr>)"
proof (cases "validator_list req ''If-Match'' = []")
  case False
  then obtain a as where im: "map_of (req_headers req) ''If-Match'' = Some (a # as)"
    by (auto simp: validator_list_def neq_Nil_conv split: option.splits if_splits)
  have vl: "validator_list req ''If-Match'' = etag_list (a # as)"
    using im by (rule validator_list_given)
  show ?thesis
    using assms by (simp add: etag_handling_def im vl etag_list_not_Nil)
next
  case True
  note im = True
  then have im_hdr: "map_of (req_headers req) ''If-Match'' = None
                     \<or> map_of (req_headers req) ''If-Match'' = Some []"
    by (simp add: validator_list_empty)
  show ?thesis
  proof (cases "validator_list req ''If-None-Match'' = []")
    case True
    then have "map_of (req_headers req) ''If-None-Match'' = None
               \<or> map_of (req_headers req) ''If-None-Match'' = Some []"
      by (simp add: validator_list_empty)
    with im_hdr show ?thesis
      using assms im True by (auto simp: etag_handling_def)
  next
    case False
    then obtain b bs where inm: "map_of (req_headers req) ''If-None-Match'' = Some (b # bs)"
      by (auto simp: validator_list_def neq_Nil_conv split: option.splits if_splits)
    have vl: "validator_list req ''If-None-Match'' = etag_list (b # bs)"
      using inm by (rule validator_list_given)
    from im_hdr show ?thesis
      using assms im by (auto simp: etag_handling_def inm vl)
  qed
qed

lemma etag_list_star: "etag_list ''*'' = [''*'']"
  by code_simp

lemma etag_list_two: "etag_list ''zzz, h-datalinksmetajsonapi'' = [''zzz'', ''h-datalinksmetajsonapi'']"
  by code_simp

text \<open>
  Claim C2, as amended. With the ETag protocol enabled, every successful response is
  validated against the hash of its final body: a non-empty \<^verbatim>\<open>If-Match\<close> header
  whose validator list holds neither the hash nor \<^verbatim>\<open>*\<close> gives
  PreconditionFailed (412); with no \<^verbatim>\<open>If-Match\<close> header (or an empty one), a
  non-empty \<^verbatim>\<open>If-None-Match\<close> header whose list holds the hash or \<^verbatim>\<open>*\<close>
  gives NotModified (304); in every other case, a matching \<^verbatim>\<open>If-Match\<close>
  included, the response is returned with its \<^verbatim>\<open>ETag\<close> header set to the hash,
  its body and status unchanged.
\<close>

theorem C2_conditional_requests:
  assumes "view (lower (req_method req)) = Some method"
    and "method req kw = (calls, Inr rv)"
    and "normalize_response env rv = Inr (resp, headers)"
    and "cfg_ETAG cfg"
  shows "let etag = sha1_hexdigest env (resp_data resp);
             if_match = validator_list req ''If-Match'';
             if_none_match = validator_list req ''If-None-Match'';
             validated = resp\<lparr>resp_headers := headers_set ''ETag'' (JStr etag) (resp_headers resp)\<rparr>;
             failed = error_response env PreconditionFailed (JObj [(''pointer'', JStr [])])
                        ''Precondition failed'' headers;
             not_modified = error_response env NotModified (JObj [(''pointer'', JStr [])])
                              ''Resource not modified'' headers
         in dispatch_request env cfg view req kw =
              (calls,
               Inr (Some (if if_match \<noteq> [] \<and> etag \<notin> set if_match \<and> ''*'' \<notin> set if_match
                          then failed
                          else if if_match = []
                                  \<and> (etag \<in> set if_none_match \<or> ''*'' \<in> set if_none_match)
                          then not_modified
                          else validated)))
            \<and> resp_status failed = 412
            \<and> resp_status not_modified = 304
            \<and> map_of (resp_headers validated) ''ETag'' = Some (JStr etag)
            \<and> resp_data validated = resp_data resp
            \<and> resp_status validated = resp_status resp"
proof -
  have run: "dispatch_request env cfg view req kw =
               (calls, Inr (etag_handling env cfg req resp headers))"
    using assms(1-3) by (rule dispatch_success)
  show ?thesis
    unfolding Let_def run etag_handling_enabled [OF assms(4)]
    by (simp add: map_of_headers_set)
qed

text \<open>
  A \<^verbatim>\<open>GET\<close> of article 1 whose \<^verbatim>\<open>If-None-Match\<close> list holds the hash of
  the body is answered with 304.
\<close>

theorem C2_conditional_requests_witness:
  "cfg_ETAG (cfg0\<lparr>cfg_ETAG := True\<rparr>)
   \<and> dispatch_request env0 (cfg0\<lparr>cfg_ETAG := True\<rparr>)
         (ResourceDetail env0 (cfg0\<lparr>cfg_ETAG := True\<rparr>) res0)
         (req0\<lparr>req_headers := [(''If-None-Match'', ''zzz, h-datalinksmetajsonapi'')]\<rparr>)
         [(''id'', UInt 1)]
       = ([GetObject [(''id'', UInt 1)] None],
          Inr (Some (error_response env0 NotModified (JObj [(''pointer'', JStr [])])
                       ''Resource not modified'' default_headers)))
   \<and> resp_status (error_response env0 NotModified (JObj [(''pointer'', JStr [])])
                       ''Resource not modified'' default_headers) = 304"
proof -
  let ?cfg = "cfg0\<lparr>cfg_ETAG := True\<rparr>"
  let ?req = "req0\<lparr>req_headers := [(''If-None-Match'', ''zzz, h-datalinksmetajsonapi'')]\<rparr>"
  let ?kw = "[(''id'', UInt 1)]"
  let ?doc = "JObj (schema_dump schema0 (compute_schema [] [] []) obj1)"
  let ?resp = "make_response (json_dumps env0 (stamp_version ?doc)) 200 default_headers"
  have flag: "cfg_ETAG ?cfg"
    by simp
  have view: "ResourceDetail env0 ?cfg res0 (lower (req_method ?req))
                = Some (ResourceDetail_get env0 res0)"
    by (simp add: ResourceDetail_def req0_def lower_GET)
  have run: "ResourceDetail_get env0 res0 ?req ?kw = ([GetObject ?kw None], Inr (RValue ?doc))"
    by (simp add: ResourceDetail_get_def req0_def res0_def dl0_def env0_def)
  have norm: "normalize_response env0 (RValue ?doc) = Inr (?resp, default_headers)"
    by (simp add: normalize_response_def)
  have body: "sha1_hexdigest env0 (resp_data ?resp) = ''h-datalinksmetajsonapi''"
    by (simp add: make_response_def env0_def stamp_version_def schema0_def)
  have im: "validator_list ?req ''If-Match'' = []"
    by (simp add: validator_list_def req0_def)
  have inm: "validator_list ?req ''If-None-Match'' = [''zzz'', ''h-datalinksmetajsonapi'']"
    by (simp add: validator_list_def req0_def etag_list_two)
  from C2_conditional_requests
    [where view = "ResourceDetail env0 ?cfg res0" and req = ?req and kw = ?kw,
      OF view run norm flag]
  show ?thesis
    by (simp add: Let_def body im inm)
qed

text \<open>
  Claim C2 as stated fails when both headers are sent and \<^verbatim>\<open>If-Match\<close>
  matches: \<^verbatim>\<open>If-None-Match\<close> is an \<^verbatim>\<open>elif\<close> of the \<^verbatim>\<open>If-Match\<close>
  test and is not looked at, so the response is the 200 and not a 304.
\<close>

theorem C2_counterexample:
  "cfg_ETAG (cfg0\<lparr>cfg_ETAG := True\<rparr>)
   \<and> map_of (req_headers (req0\<lparr>req_headers := [(''If-Match'', ''*''), (''If-None-Match'', ''*'')]\<rparr>))
        ''If-Match'' = Some ''*''
   \<and> map_of (req_headers (req0\<lparr>req_headers := [(''If-Match'', ''*''), (''If-None-Match'', ''*'')]\<rparr>))
        ''If-None-Match'' = Some ''*''
   \<and> ''*'' \<in> set (etag_list ''*'')
   \<and> emitted_status
         (dispatch_request env0 (cfg0\<lparr>cfg_ETAG := True\<rparr>)
            (ResourceDetail env0 (cfg0\<lparr>cfg_ETAG := True\<rparr>) res0)
            (req0\<lparr>req_headers := [(''If-Match'', ''*''), (''If-None-Match'', ''*'')]\<rparr>)
            [(''id'', UInt 1)])
       = Some 200"
  by (simp add: etag_list_star emitted_status_def dispatch_request_def ResourceDetail_def
      ResourceDetail_get_def normalize_response_def etag_handling_def make_response_def
      req0_def lower_GET cfg0_def res0_def dl0_def)

section \<open>Single-item resource: delete and get\<close>

lemma normalized_status_RValue [simp]: "normalized_status env (RValue v) = Some 200"
  by (simp add: normalized_status_def normalize_response_def make_response_def)

lemma normalized_status_RTuple2 [simp]: "normalized_status env (RTuple2 v st) = Some st"
  by (simp add: normalized_status_def normalize_response_def make_response_def)

lemma normalized_status_RTuple3 [simp]: "normalized_status env (RTuple3 v st hs) = Some st"
  by (simp add: normalized_status_def normalize_response_def make_response_def Let_def)

lemma emitted_status_jsonapi_error:
  assumes "view (lower (req_method req)) = Some method"
    and "method req kw = (calls, Inl (JsonApi c source detail))"
  shows "emitted_status (dispatch_request env cfg view req kw) = Some (exc_status c)"
  by (simp add: emitted_status_def
      dispatch_jsonapi_error [where view = view and req = req and kw = kw, OF assms])

text \<open>What a single-item delete calls and returns, once its fetch found an object.\<close>

lemma delete_outcome:
  assumes "get_object (res_data_layer res) kw
             (Some (map_of (req_args req) ''permanent'' = Some ''true'')) = Inr (Some obj)"
  shows "let permanent = (map_of (req_args req) ''permanent'' = Some ''true'');
             hard = (''deleted_at'' \<notin> set (map fst (declared_fields (res_schema res)))
                     \<or> permanent \<or> cfg_SOFT_DELETE cfg = False);
             stamp = JObj [(''deleted_at'', JStr (now_utc env))];
             message = JObj [(''meta'', JObj [(''message'', JStr ''Object successfully deleted'')])];
             out = ResourceDetail_delete env cfg res req kw
         in (DeleteObject obj kw \<in> set (fst out)) = hard
          \<and> (hard \<longrightarrow> fst out = [GetObject kw (Some permanent), DeleteObject obj kw])
          \<and> (\<not> hard \<longrightarrow> fst out = [GetObject kw (Some permanent), UpdateObject obj stamp kw])
          \<and> (hard \<and> delete_object (res_data_layer res) obj kw = Inr ()
                \<longrightarrow> snd out = Inr (RValue message))
          \<and> (\<not> hard \<and> (\<exists>obj'. update_object (res_data_layer res) obj stamp kw = Inr obj')
                \<longrightarrow> snd out = Inr (RValue message))
          \<and> normalized_status env (RValue message) = Some 200"
  using assms
  by (auto simp: ResourceDetail_delete_def Let_def split: sum.splits)

text \<open>
  Claim C9. A single-item get calls \<^verbatim>\<open>get_object\<close> once, with
  \<^verbatim>\<open>get_trashed=True\<close> exactly when the \<^verbatim>\<open>get_trashed\<close> query parameter is
  the string \<^verbatim>\<open>true\<close> and without the keyword for any other value or none; when
  the fetch returns None the handler raises ObjectNotFound, which the dispatcher answers
  with status 404.
\<close>

theorem C9_get_trashed_flag:
  "let trashed = (map_of (req_args req) ''get_trashed'' = Some ''true'');
       flag = (if trashed then Some True else None);
       out = ResourceDetail_get env res req kw
   in (trashed \<longrightarrow> fst out = [GetObject kw (Some True)])
    \<and> (\<not> trashed \<longrightarrow> fst out = [GetObject kw None])
    \<and> (get_object (res_data_layer res) kw flag = Inr None \<longrightarrow>
          snd out = Inl (JsonApi ObjectNotFound (JObj [(''pointer'', JStr [])]) ''Object Not Found'')
          \<and> exc_status ObjectNotFound = 404
          \<and> (\<forall>cfg view. view (lower (req_method req)) = Some (ResourceDetail_get env res) \<longrightarrow>
                emitted_status (dispatch_request env cfg view req kw) = Some 404))"
proof -
  let ?flag = "if map_of (req_args req) ''get_trashed'' = Some ''true'' then Some True else None"
  have calls: "fst (ResourceDetail_get env res req kw) = [GetObject kw ?flag]"
    by (simp add: ResourceDetail_get_def Let_def split: sum.splits option.splits)
  have missing: "ResourceDetail_get env res req kw =
                   ([GetObject kw ?flag],
                    Inl (JsonApi ObjectNotFound (JObj [(''pointer'', JStr [])]) ''Object Not Found''))"
    if "get_object (res_data_layer res) kw ?flag = Inr None"
    using that by (simp add: ResourceDetail_get_def Let_def object_not_found_def)
  have status: "emitted_status (dispatch_request env cfg view req kw) = Some 404"
    if "get_object (res_data_layer res) kw ?flag = Inr None"
      and "view (lower (req_method req)) = Some (ResourceDetail_get env res)"
    for cfg view
    using emitted_status_jsonapi_error
      [where view = view and req = req and kw = kw, OF that(2) missing [OF that(1)]]
    by simp
  show ?thesis
    unfolding Let_def using calls missing status by auto
qed


text \<open>
  The parameter \<^verbatim>\<open>true\<close> sets the flag, \<^verbatim>\<open>True\<close> and no parameter do not,
  and the unknown article 7 is answered with 404.
\<close>

theorem C9_get_trashed_flag_witness:
  "fst (ResourceDetail_get env0 res0 (req0\<lparr>req_args := [(''get_trashed'', ''true'')]\<rparr>)
          [(''id'', UInt 1)]) = [GetObject [(''id'', UInt 1)] (Some True)]
   \<and> fst (ResourceDetail_get env0 res0 (req0\<lparr>req_args := [(''get_trashed'', ''True'')]\<rparr>)
          [(''id'', UInt 1)]) = [GetObject [(''id'', UInt 1)] None]
   \<and> fst (ResourceDetail_get env0 res0 req0 [(''id'', UInt 1)]) = [GetObject [(''id'', UInt 1)] None]
   \<and> get_object (res_data_layer res0) [(''id'', UInt 7)] None = Inr None
   \<and> snd (ResourceDetail_get env0 res0 req0 [(''id'', UInt 7)])
       = Inl (JsonApi ObjectNotFound (JObj [(''pointer'', JStr [])]) ''Object Not Found'')
   \<and> emitted_status (dispatch_request env0 cfg0 (ResourceDetail env0 cfg0 res0) req0
         [(''id'', UInt 7)]) = Some 404"
proof -
  let ?kw = "[(''id'', UInt 1)]"
  have a: "map_of (req_args (req0\<lparr>req_args := [(''get_trashed'', ''true'')]\<rparr>)) ''get_trashed''
             = Some ''true''"
    by simp
  have b: "map_of (req_args (req0\<lparr>req_args := [(''get_trashed'', ''True'')]\<rparr>)) ''get_trashed''
             \<noteq> Some ''true''"
    by simp
  have c: "map_of (req_args req0) ''get_trashed'' \<noteq> Some ''true''"
    by (simp add: req0_def)
  have none: "get_object (res_data_layer res0) [(''id'', UInt 7)] None = Inr None"
    by (simp add: res0_def dl0_def)
  have view: "ResourceDetail env0 cfg0 res0 (lower (req_method req0))
                = Some (ResourceDetail_get env0 res0)"
    by (simp add: ResourceDetail_def req0_def lower_GET)
  from C9_get_trashed_flag [where req = "req0\<lparr>req_args := [(''get_trashed'', ''true'')]\<rparr>"
      and env = env0 and res = res0 and kw = ?kw] a
  have one: "fst (ResourceDetail_get env0 res0 (req0\<lparr>req_args := [(''get_trashed'', ''true'')]\<rparr>)
          ?kw) = [GetObject ?kw (Some True)]"
    by (simp add: Let_def)
  from C9_get_trashed_flag [where req = "req0\<lparr>req_args := [(''get_trashed'', ''True'')]\<rparr>"
      and env = env0 and res = res0 and kw = ?kw] b
  have two: "fst (ResourceDetail_get env0 res0 (req0\<lparr>req_args := [(''get_trashed'', ''True'')]\<rparr>)
          ?kw) = [GetObject ?kw None]"
    by (simp add: Let_def)
  from C9_get_trashed_flag [where req = req0 and env = env0 and res = res0 and kw = ?kw] c
  have three: "fst (ResourceDetail_get env0 res0 req0 ?kw) = [GetObject ?kw None]"
    by (simp add: Let_def)
  from C9_get_trashed_flag
    [where req = req0 and env = env0 and res = res0 and kw = "[(''id'', UInt 7)]"] c none view
  have four: "snd (ResourceDetail_get env0 res0 req0 [(''id'', UInt 7)])
       = Inl (JsonApi ObjectNotFound (JObj [(''pointer'', JStr [])]) ''Object Not Found'')
     \<and> emitted_status (dispatch_request env0 cfg0 (ResourceDetail env0 cfg0 res0) req0
         [(''id'', UInt 7)]) = Some 404"
    by (simp add: Let_def)
  from one two three four none show ?thesis
    by simp
qed

section \<open>Loading a body: create and update\<close>

lemma map_of_dict_set: "map_of (dict_set k v d) = (map_of d)(k \<mapsto> v)"
  by (induction d) auto

lemma py_in_dict: "py_in k (JObj d) = Inr (map_of d k \<noteq> None)"
  by (simp add: map_of_eq_None_iff)

lemma py_getitem_dict_set:
  "py_getitem (JObj (dict_set k v d)) k' = (if k' = k then Inr v else py_getitem (JObj d) k')"
  by (simp add: map_of_dict_set)

lemma stamp_all_dicts:
  "list_all is_dict es \<Longrightarrow> stamp_all st ti es = Inr (map (with_status_and_title st ti) es)"
proof (induction es)
  case Nil
  then show ?case by simp
next
  case (Cons e es)
  then obtain d where e: "e = JObj d"
    by (cases e) auto
  from Cons show ?case
    by (simp add: e and_then_def with_status_and_title_def)
qed

lemma stamp_errors_dicts:
  assumes "map_of md ''errors'' = Some (JList es)" and "list_all is_dict es"
  shows "stamp_errors st ti (JObj md) = Inr (error_document st ti md es)"
  using assms by (simp add: stamp_errors_def and_then_def stamp_all_dicts error_document_def)

lemma return_errors_dicts:
  assumes "map_of md ''errors'' = Some (JList es)" and "list_all is_dict es"
  shows "return_errors st ti code (JObj md) = Inr (RTuple2 (error_document st ti md es) code)"
  using assms by (simp add: return_errors_def and_then_def stamp_errors_dicts)

lemma with_status_and_title_entry:
  assumes "is_dict e"
  shows "py_getitem (with_status_and_title st ti e) ''status'' = Inr (JStr st)
       \<and> py_getitem (with_status_and_title st ti e) ''title'' = Inr (JStr ti)
       \<and> (\<forall>k. k \<noteq> ''status'' \<and> k \<noteq> ''title'' \<longrightarrow>
             py_getitem (with_status_and_title st ti e) k = py_getitem e k)"
proof -
  from assms obtain d where e: "e = JObj d"
    by (cases e) auto
  show ?thesis
    by (simp add: e with_status_and_title_def map_of_dict_set)
qed

text \<open>What a create and an update return when the load fails.\<close>

lemma load_errors_outcome:
  assumes "map_of messages ''errors'' = Some (JList entries)"
    and "list_all is_dict entries"
  shows "let post_schema = compute_schema (post_schema_kwargs res) (req_args req)
                             (qs_include env (req_args req));
             patch_schema = compute_schema (dict_set ''partial'' (JBool True) (patch_schema_kwargs res))
                              (req_args req) (qs_include env (req_args req));
             load_post = schema_load (res_schema res) post_schema (req_json req);
             load_patch = schema_load (res_schema res) patch_schema (req_json req);
             incorrect = error_document ''409'' ''Incorrect type'' messages entries;
             invalid = error_document ''422'' ''Validation error'' messages entries
         in (load_post = IncorrectTypeError (JObj messages) \<longrightarrow>
               ResourceList_post env res req kw = ([], Inr (RTuple2 incorrect 409)))
          \<and> (load_post = ValidationError (JObj messages)
                \<or> (\<exists>data. load_post = Loaded data (JObj messages)) \<longrightarrow>
               ResourceList_post env res req kw = ([], Inr (RTuple2 invalid 422)))
          \<and> (load_patch = IncorrectTypeError (JObj messages) \<longrightarrow>
               ResourceDetail_patch env res req kw = ([], Inr (RTuple2 incorrect 409)))
          \<and> (load_patch = ValidationError (JObj messages)
                \<or> (\<exists>data. load_patch = Loaded data (JObj messages)) \<longrightarrow>
               ResourceDetail_patch env res req kw = ([], Inr (RTuple2 invalid 422)))
          \<and> normalized_status env (RTuple2 incorrect 409) = Some 409
          \<and> normalized_status env (RTuple2 invalid 422) = Some 422
          \<and> (\<exists>stamped. py_getitem incorrect ''errors'' = Inr (JList stamped)
                \<and> length stamped = length entries
                \<and> (\<forall>i < length entries.
                      py_getitem (stamped ! i) ''status'' = Inr (JStr ''409'')
                      \<and> py_getitem (stamped ! i) ''title'' = Inr (JStr ''Incorrect type'')
                      \<and> (\<forall>k. k \<noteq> ''status'' \<and> k \<noteq> ''title'' \<longrightarrow>
                            py_getitem (stamped ! i) k = py_getitem (entries ! i) k)))
          \<and> (\<exists>stamped. py_getitem invalid ''errors'' = Inr (JList stamped)
                \<and> length stamped = length entries
                \<and> (\<forall>i < length entries.
                      py_getitem (stamped ! i) ''status'' = Inr (JStr ''422'')
                      \<and> py_getitem (stamped ! i) ''title'' = Inr (JStr ''Validation error'')
                      \<and> (\<forall>k. k \<noteq> ''status'' \<and> k \<noteq> ''title'' \<longrightarrow>
                            py_getitem (stamped ! i) k = py_getitem (entries ! i) k)))"
proof -
  note ret = return_errors_dicts [OF assms]
  have truthy: "py_truthy (JObj messages)"
    using assms(1) by (cases messages) auto
  have entry: "is_dict (entries ! i)" if "i < length entries" for i
    using assms(2) that by (simp add: list_all_length)
  have doc: "\<exists>stamped. py_getitem (error_document st ti messages entries) ''errors''
                 = Inr (JList stamped)
              \<and> length stamped = length entries
              \<and> (\<forall>i < length entries.
                    py_getitem (stamped ! i) ''status'' = Inr (JStr st)
                    \<and> py_getitem (stamped ! i) ''title'' = Inr (JStr ti)
                    \<and> (\<forall>k. k \<noteq> ''status'' \<and> k \<noteq> ''title'' \<longrightarrow>
                          py_getitem (stamped ! i) k = py_getitem (entries ! i) k))" for st ti
  proof (intro exI conjI allI impI)
    show "py_getitem (error_document st ti messages entries) ''errors''
            = Inr (JList (map (with_status_and_title st ti) entries))"
      by (simp add: error_document_def map_of_dict_set)
    show "length (map (with_status_and_title st ti) entries) = length entries"
      by simp
  next
    fix i assume i: "i < length entries"
    from with_status_and_title_entry [OF entry [OF i], of st ti] i
    show "py_getitem (map (with_status_and_title st ti) entries ! i) ''status'' = Inr (JStr st)"
      and "py_getitem (map (with_status_and_title st ti) entries ! i) ''title'' = Inr (JStr ti)"
      by simp_all
    fix k assume "k \<noteq> ''status'' \<and> k \<noteq> ''title''"
    with with_status_and_title_entry [OF entry [OF i], of st ti] i
    show "py_getitem (map (with_status_and_title st ti) entries ! i) k
            = py_getitem (entries ! i) k"
      by simp
  qed
  have post: "ResourceList_post env res req kw = ([], return_errors ''409'' ''Incorrect type'' 409 (JObj messages))"
    if "schema_load (res_schema res) (compute_schema (post_schema_kwargs res) (req_args req)
          (qs_include env (req_args req))) (req_json req) = IncorrectTypeError (JObj messages)"
    using that by (simp add: ResourceList_post_def Let_def)
  have post2: "ResourceList_post env res req kw = ([], return_errors ''422'' ''Validation error'' 422 (JObj messages))"
    if "schema_load (res_schema res) (compute_schema (post_schema_kwargs res) (req_args req)
          (qs_include env (req_args req))) (req_json req) = ValidationError (JObj messages)
        \<or> (\<exists>data. schema_load (res_schema res) (compute_schema (post_schema_kwargs res) (req_args req)
          (qs_include env (req_args req))) (req_json req) = Loaded data (JObj messages))"
    using that truthy by (auto simp: ResourceList_post_def Let_def)
  have patch: "ResourceDetail_patch env res req kw = ([], return_errors ''409'' ''Incorrect type'' 409 (JObj messages))"
    if "schema_load (res_schema res)
          (compute_schema (dict_set ''partial'' (JBool True) (patch_schema_kwargs res)) (req_args req)
          (qs_include env (req_args req))) (req_json req) = IncorrectTypeError (JObj messages)"
    using that by (simp add: ResourceDetail_patch_def Let_def)
  have patch2: "ResourceDetail_patch env res req kw = ([], return_errors ''422'' ''Validation error'' 422 (JObj messages))"
    if "schema_load (res_schema res)
          (compute_schema (dict_set ''partial'' (JBool True) (patch_schema_kwargs res)) (req_args req)
          (qs_include env (req_args req))) (req_json req) = ValidationError (JObj messages)
        \<or> (\<exists>data. schema_load (res_schema res)
          (compute_schema (dict_set ''partial'' (JBool True) (patch_schema_kwargs res)) (req_args req)
          (qs_include env (req_args req))) (req_json req) = Loaded data (JObj messages))"
    using that truthy by (auto simp: ResourceDetail_patch_def Let_def)
  show ?thesis
    unfolding Let_def
    using post post2 patch patch2 doc [of "''409''" "''Incorrect type''"]
      doc [of "''422''" "''Validation error''"]
    by (simp add: ret normalized_status_RTuple2)
qed


text \<open>
  Claim C4. In an update whose body loads without errors, when the \<^verbatim>\<open>data\<close> node
  has no \<^verbatim>\<open>id\<close>, or has one that differs from the string of the route variable
  named by \<^verbatim>\<open>url_field\<close> (\<^verbatim>\<open>id\<close> when the resource names none), the handler
  raises BadRequest with source \<^verbatim>\<open>/data/id\<close> before any call on the data layer,
  and the dispatcher answers with status 400.
\<close>

theorem C4_patch_id_mismatch:
  assumes "schema_load (res_schema res)
             (compute_schema (dict_set ''partial'' (JBool True) (patch_schema_kwargs res))
                (req_args req) (qs_include env (req_args req))) (req_json req)
           = Loaded data errors"
    and "\<not> py_truthy errors"
    and "req_json req = JObj body"
    and "map_of body ''data'' = Some (JObj d)"
    and "map_of d ''id'' = None
         \<or> (\<exists>url_id. map_of kw (case res_url_field res of None \<Rightarrow> ''id'' | Some f \<Rightarrow> f)
                         = Some url_id
                     \<and> map_of d ''id'' \<noteq> Some (JStr (py_str url_id)))"
  shows "fst (ResourceDetail_patch env res req kw) = []
       \<and> (\<exists>detail. snd (ResourceDetail_patch env res req kw)
                      = Inl (JsonApi BadRequest (JStr ''/data/id'') detail))
       \<and> exc_status BadRequest = 400
       \<and> (\<forall>cfg view. view (lower (req_method req)) = Some (ResourceDetail_patch env res) \<longrightarrow>
             fst (dispatch_request env cfg view req kw) = []
             \<and> emitted_status (dispatch_request env cfg view req kw) = Some 400)"
proof -
  have "\<exists>detail. ResourceDetail_patch env res req kw
                   = ([], Inl (JsonApi BadRequest (JStr ''/data/id'') detail))"
  proof (cases "map_of d ''id''")
    case None
    then have "py_in ''id'' (JObj d) = Inr False"
      by (simp add: map_of_eq_None_iff)
    with assms(1-4) show ?thesis
      by (simp add: ResourceDetail_patch_def Let_def and_then_def)
  next
    case (Some v)
    then have has: "py_in ''id'' (JObj d) = Inr True"
      by (simp add: py_in_dict del: py_in.simps)
    from Some assms(5) obtain url_id
      where u: "map_of kw (case res_url_field res of None \<Rightarrow> ''id'' | Some f \<Rightarrow> f) = Some url_id"
        and ne: "v \<noteq> JStr (py_str url_id)"
      by auto
    from assms(1-4) Some u ne show ?thesis
      by (simp add: ResourceDetail_patch_def Let_def and_then_def has del: py_in.simps)
  qed
  then obtain detail where run: "ResourceDetail_patch env res req kw
                   = ([], Inl (JsonApi BadRequest (JStr ''/data/id'') detail))"
    by blast
  have disp: "dispatch_request env cfg view req kw
                = ([], Inr (Some (error_response env BadRequest (JStr ''/data/id'') detail
                                    default_headers)))"
    if "view (lower (req_method req)) = Some (ResourceDetail_patch env res)" for cfg view
    using dispatch_jsonapi_error [where view = view and req = req and kw = kw, OF that run] .
  show ?thesis
    using run disp by (simp add: emitted_status_def)
qed

text \<open>A \<^verbatim>\<open>PATCH\<close> of article 1 with the body id 2 is refused with 400.\<close>

theorem C4_patch_id_mismatch_witness:
  "req_json (req0\<lparr>req_method := ''PATCH'',
        req_json := JObj [(''data'', JObj [(''id'', JStr ''2''), (''attributes'', JObj [])])]\<rparr>)
     = JObj [(''data'', JObj [(''id'', JStr ''2''), (''attributes'', JObj [])])]
   \<and> map_of [(''id'', UInt 1)] (case res_url_field res0 of None \<Rightarrow> ''id'' | Some f \<Rightarrow> f)
       = Some (UInt 1)
   \<and> py_str (UInt 1) = ''1''
   \<and> fst (ResourceDetail_patch env0 res0
        (req0\<lparr>req_method := ''PATCH'',
              req_json := JObj [(''data'', JObj [(''id'', JStr ''2''), (''attributes'', JObj [])])]\<rparr>)
        [(''id'', UInt 1)]) = []
   \<and> emitted_status (dispatch_request env0 cfg0 (ResourceDetail env0 cfg0 res0)
        (req0\<lparr>req_method := ''PATCH'',
              req_json := JObj [(''data'', JObj [(''id'', JStr ''2''), (''attributes'', JObj [])])]\<rparr>)
        [(''id'', UInt 1)]) = Some 400"
proof -
  let ?d = "[(''id'', JStr ''2''), (''attributes'', JObj [])]"
  let ?body = "[(''data'', JObj ?d)]"
  let ?req = "req0\<lparr>req_method := ''PATCH'', req_json := JObj ?body\<rparr>"
  let ?kw = "[(''id'', UInt 1)]"
  have load: "schema_load (res_schema res0)
             (compute_schema (dict_set ''partial'' (JBool True) (patch_schema_kwargs res0))
                (req_args ?req) (qs_include env0 (req_args ?req))) (req_json ?req)
           = Loaded (JObj []) (JObj [])"
    by (simp add: res0_def schema0_def)
  have ok: "\<not> py_truthy (JObj [])"
    by simp
  have body: "req_json ?req = JObj ?body"
    by simp
  have data: "map_of ?body ''data'' = Some (JObj ?d)"
    by simp
  have url: "map_of ?kw (case res_url_field res0 of None \<Rightarrow> ''id'' | Some f \<Rightarrow> f) = Some (UInt 1)"
    by (simp add: res0_def)
  have str: "py_str (UInt 1) = ''1''"
    by code_simp
  have ne: "map_of ?d ''id'' = None
         \<or> (\<exists>url_id. map_of ?kw (case res_url_field res0 of None \<Rightarrow> ''id'' | Some f \<Rightarrow> f)
                         = Some url_id
                     \<and> map_of ?d ''id'' \<noteq> Some (JStr (py_str url_id)))"
    using url str by simp
  have view: "ResourceDetail env0 cfg0 res0 (lower (req_method ?req))
                = Some (ResourceDetail_patch env0 res0)"
    by (simp add: ResourceDetail_def lower_PATCH)
  from C4_patch_id_mismatch [OF load ok body data ne] view
  have "fst (ResourceDetail_patch env0 res0 ?req ?kw) = []
       \<and> emitted_status (dispatch_request env0 cfg0 (ResourceDetail env0 cfg0 res0) ?req ?kw)
           = Some 400"
    by blast
  with body url str show ?thesis
    by simp
qed

text \<open>What a create returns when the load succeeds.\<close>

lemma post_created_outcome:
  assumes "schema_load (res_schema res)
             (compute_schema (post_schema_kwargs res) (req_args req)
                (qs_include env (req_args req))) (req_json req)
           = Loaded data errors"
    and "\<not> py_truthy errors"
    and "create_object (res_data_layer res) data kw = Inr obj"
    and "schema_dump (res_schema res)
           (compute_schema (post_schema_kwargs res) (req_args req)
              (qs_include env (req_args req))) obj = doc"
    and "map_of doc ''data'' = Some (JObj d)"
    and "map_of d ''links'' = Some (JObj links)"
    and "map_of links ''self'' = Some link"
  shows "ResourceList_post env res req kw
           = ([CreateObject data kw], Inr (RTuple3 (JObj doc) 201 [(''Location'', link)]))
       \<and> (\<exists>resp headers.
             normalize_response env (RTuple3 (JObj doc) 201 [(''Location'', link)])
               = Inr (resp, headers)
             \<and> resp_status resp = 201
             \<and> map_of (resp_headers resp) ''Location'' = Some link
             \<and> resp_data resp = json_dumps env (stamp_version (JObj doc))
             \<and> and_then (py_getitem (stamp_version (JObj doc)) ''data'') (\<lambda>d.
                  and_then (py_getitem d ''links'') (\<lambda>l. py_getitem l ''self'')) = Inr link)"
proof -
  have run: "ResourceList_post env res req kw
           = ([CreateObject data kw], Inr (RTuple3 (JObj doc) 201 [(''Location'', link)]))"
    using assms by (simp add: ResourceList_post_def Let_def and_then_def)
  have body: "and_then (py_getitem (stamp_version (JObj doc)) ''data'') (\<lambda>d.
                and_then (py_getitem d ''links'') (\<lambda>l. py_getitem l ''self'')) = Inr link"
    using assms(5-7) by (simp add: stamp_version_def map_of_dict_set and_then_def)
  have norm: "normalize_response env (RTuple3 (JObj doc) 201 [(''Location'', link)])
      = Inr (make_response (json_dumps env (stamp_version (JObj doc))) 201
               [(''Location'', link), (''Content-Type'', JStr ''application/vnd.api+json'')],
             [(''Location'', link), (''Content-Type'', JStr ''application/vnd.api+json'')])"
    by (simp add: normalize_response_def Let_def)
  show ?thesis
    using run body by (simp add: norm make_response_def)
qed

section \<open>Relationship resource: the checks on the body\<close>








lemma check_body_other:
  "map_of body ''data'' = Some data \<Longrightarrow> \<not> is_dict data \<Longrightarrow> \<not> is_list data \<Longrightarrow>
     check_relationship_body (JObj body) rt = Inr ()"
  by (cases data)
    (simp_all add: check_relationship_body_def and_then_def py_in_dict del: py_in.simps)


lemma relationship_calls:
  assumes "get_relationship_data cfg res req = Inr (rf, mrf, rt, rid)"
    and "check_relationship_body (req_json req) rt = Inr ()"
  shows "fst (ResourceRelationship_post env cfg res req kw)
           = [CreateRelationship (req_json req) mrf rid kw]"
    and "fst (ResourceRelationship_patch env cfg res req kw)
           = [UpdateRelationship (req_json req) mrf rid kw]"
    and "fst (ResourceRelationship_delete env cfg res req kw)
           = [DeleteRelationship (req_json req) mrf rid kw]"
  using assms
  by (simp_all add: ResourceRelationship_post_def ResourceRelationship_patch_def
      ResourceRelationship_delete_def Let_def split: sum.splits prod.splits)



text \<open>The \<^verbatim>\<open>author\<close> relationship of the example resolves.\<close>

lemma author_segment: "last (split_on CHR ''/'' ''/articles/1/relationships/author'') = ''author''"
  by code_simp

lemma relationships_schema0: "get_relationships schema0 = [''author'']"
  by (simp add: get_relationships_def schema0_def)

lemma author_field: "map_of (declared_fields schema0) ''author'' = Some (Relationship ''people'' ''id'')"
  by (simp add: schema0_def)

lemma author_relationship:
  "req_path r = ''/articles/1/relationships/author'' \<Longrightarrow>
     get_relationship_data cfg0 res0 r = Inr (''author'', ''author'', ''people'', ''id'')"
proof -
  assume path: "req_path r = ''/articles/1/relationships/author''"
  have dash: "dash_to_underscore ''author'' = ''author''"
    by (simp add: dash_to_underscore_def)
  have sch: "res_schema res0 = schema0"
    by (simp add: res0_def)
  have mf: "model_field schema0 ''author'' = ''author''"
    by (simp add: schema0_def)
  show ?thesis
    by (simp add: get_relationship_data_def path author_segment dash sch relationships_schema0
        author_field mf Let_def cfg0_def)
qed




text \<open>
  Claim C10. When the \<^verbatim>\<open>data\<close> of the body of a relationship mutation is neither
  an object nor a list, the checks pass without looking at it and the body goes to the
  relationship call of the data layer as it came. An exception of the handler is then
  the one the data layer raised, or the \<^verbatim>\<open>AttributeError\<close> of a serialized
  result whose \<^verbatim>\<open>links\<close> is not a dict.
\<close>

theorem C10_unchecked_relationship_data:
  assumes "get_relationship_data cfg res req = Inr (rf, mrf, rt, rid)"
    and "req_json req = JObj body"
    and "map_of body ''data'' = Some data"
    and "\<not> is_dict data"
    and "\<not> is_list data"
  shows "check_relationship_body (req_json req) rt = Inr ()
       \<and> fst (ResourceRelationship_post env cfg res req kw)
           = [CreateRelationship (req_json req) mrf rid kw]
       \<and> fst (ResourceRelationship_patch env cfg res req kw)
           = [UpdateRelationship (req_json req) mrf rid kw]
       \<and> fst (ResourceRelationship_delete env cfg res req kw)
           = [DeleteRelationship (req_json req) mrf rid kw]
       \<and> (\<forall>e. snd (ResourceRelationship_post env cfg res req kw) = Inl e \<longrightarrow>
              create_relationship (res_data_layer res) (req_json req) mrf rid kw = Inl e
              \<or> e = PyError ''AttributeError'')
       \<and> (\<forall>e. snd (ResourceRelationship_patch env cfg res req kw) = Inl e \<longrightarrow>
              update_relationship (res_data_layer res) (req_json req) mrf rid kw = Inl e
              \<or> e = PyError ''AttributeError'')
       \<and> (\<forall>e. snd (ResourceRelationship_delete env cfg res req kw) = Inl e \<longrightarrow>
              delete_relationship (res_data_layer res) (req_json req) mrf rid kw = Inl e
              \<or> e = PyError ''AttributeError'')"
proof -
  have ok: "check_relationship_body (req_json req) rt = Inr ()"
    using check_body_other [OF assms(3-5)] assms(2) by simp
  have rw: "rewrite_self_link p doc = Inl e \<Longrightarrow> e = PyError ''AttributeError''" for p doc e
    by (auto simp: rewrite_self_link_def split: option.splits json.splits)
  have post: "create_relationship (res_data_layer res) (req_json req) mrf rid kw = Inl e
              \<or> e = PyError ''AttributeError''"
    if "snd (ResourceRelationship_post env cfg res req kw) = Inl e" for e
    using that assms(1) ok rw
    by (auto simp: ResourceRelationship_post_def Let_def and_then_def
        split: sum.splits prod.splits if_splits)
  have patch: "update_relationship (res_data_layer res) (req_json req) mrf rid kw = Inl e
              \<or> e = PyError ''AttributeError''"
    if "snd (ResourceRelationship_patch env cfg res req kw) = Inl e" for e
    using that assms(1) ok rw
    by (auto simp: ResourceRelationship_patch_def Let_def and_then_def
        split: sum.splits prod.splits if_splits)
  have delete: "delete_relationship (res_data_layer res) (req_json req) mrf rid kw = Inl e
              \<or> e = PyError ''AttributeError''"
    if "snd (ResourceRelationship_delete env cfg res req kw) = Inl e" for e
    using that assms(1) ok rw
    by (auto simp: ResourceRelationship_delete_def Let_def and_then_def
        split: sum.splits prod.splits if_splits)
  show ?thesis
    using ok relationship_calls [OF assms(1) ok] post patch delete by blast
qed

text \<open>A body whose \<^verbatim>\<open>data\<close> is a string reaches \<^verbatim>\<open>create_relationship\<close>.\<close>

theorem C10_unchecked_relationship_data_witness:
  "get_relationship_data cfg0 res0
      (req0\<lparr>req_method := ''POST'', req_path := ''/articles/1/relationships/author'',
            req_json := JObj [(''data'', JStr ''people'')]\<rparr>)
     = Inr (''author'', ''author'', ''people'', ''id'')
   \<and> check_relationship_body (JObj [(''data'', JStr ''people'')]) ''people'' = Inr ()
   \<and> fst (ResourceRelationship_post env0 cfg0 res0
        (req0\<lparr>req_method := ''POST'', req_path := ''/articles/1/relationships/author'',
              req_json := JObj [(''data'', JStr ''people'')]\<rparr>)
        [(''id'', UInt 1)])
       = [CreateRelationship (JObj [(''data'', JStr ''people'')]) ''author'' ''id'' [(''id'', UInt 1)]]"
proof -
  let ?body = "[(''data'', JStr ''people'')]"
  let ?req = "req0\<lparr>req_method := ''POST'', req_path := ''/articles/1/relationships/author'',
                   req_json := JObj ?body\<rparr>"
  have rel: "get_relationship_data cfg0 res0 ?req = Inr (''author'', ''author'', ''people'', ''id'')"
    by (rule author_relationship) simp
  have body: "req_json ?req = JObj ?body"
    by simp
  have d: "map_of ?body ''data'' = Some (JStr ''people'')"
    by simp
  have nd: "\<not> is_dict (JStr ''people'')" and nl: "\<not> is_list (JStr ''people'')"
    by simp_all
  from C10_unchecked_relationship_data [OF rel body d nd nl, of env0 "[(''id'', UInt 1)]"]
  have "check_relationship_body (req_json ?req) ''people'' = Inr ()
        \<and> fst (ResourceRelationship_post env0 cfg0 res0 ?req [(''id'', UInt 1)])
            = [CreateRelationship (req_json ?req) ''author'' ''id'' [(''id'', UInt 1)]]"
    by blast
  with rel show ?thesis
    by simp
qed


section \<open>Relationship resource: the results\<close>






section \<open>From the value of a handler to the response\<close>

text \<open>
  The dispatcher passes the calls of the handler on, whatever it answers. With the ETag
  protocol enabled and a conditional check that does not short-circuit, the response is
  the one built from the value of the handler, with its \<^verbatim>\<open>ETag\<close> header set.
\<close>

lemma dispatch_trace:
  assumes "view (lower (req_method req)) = Some method"
  shows "fst (dispatch_request env cfg view req kw) = fst (method req kw)"
proof (cases "method req kw")
  case (Pair calls r)
  show ?thesis
  proof (cases r)
    case (Inl e)
    with Pair assms show ?thesis
      by (cases e) (simp_all add: dispatch_request_def)
  next
    case (Inr rv)
    with Pair assms show ?thesis
      by (cases "normalize_response env rv") (auto simp: dispatch_request_def)
  qed
qed

lemma etag_handling_passes:
  assumes "cfg_ETAG cfg" and "\<not> short_circuits env req (resp_data resp)"
  shows "etag_handling env cfg req resp headers =
           Some (resp\<lparr>resp_headers :=
                   headers_set ''ETag'' (JStr (sha1_hexdigest env (resp_data resp)))
                     (resp_headers resp)\<rparr>)"
  using assms(2) unfolding etag_handling_enabled [OF assms(1)] short_circuits_def Let_def
  by auto

lemma etag_handling_fails:
  assumes "cfg_ETAG cfg" and "validator_list req ''If-Match'' \<noteq> []"
    and "sha1_hexdigest env (resp_data resp) \<notin> set (validator_list req ''If-Match'')"
    and "''*'' \<notin> set (validator_list req ''If-Match'')"
  shows "etag_handling env cfg req resp headers =
           Some (error_response env PreconditionFailed (JObj [(''pointer'', JStr [])])
                   ''Precondition failed'' headers)"
  using assms(2-4) unfolding etag_handling_enabled [OF assms(1)] by simp

lemma dispatch_emits:
  assumes "view (lower (req_method req)) = Some method"
    and "method req kw = (calls, Inr rv)"
    and "normalize_response env rv = Inr (resp, headers)"
    and "cfg_ETAG cfg"
    and "\<not> short_circuits env req (resp_data resp)"
  shows "dispatch_request env cfg view req kw =
           (calls, Inr (Some (resp\<lparr>resp_headers :=
                   headers_set ''ETag'' (JStr (sha1_hexdigest env (resp_data resp)))
                     (resp_headers resp)\<rparr>)))"
  by (simp add: dispatch_success [where view = view and req = req and kw = kw, OF assms(1-3)]
      etag_handling_passes [OF assms(4,5)])

lemma dispatch_emits_value:
  assumes "view (lower (req_method req)) = Some method"
    and "method req kw = (calls, Inr (RValue v))"
    and "cfg_ETAG cfg"
    and "\<not> short_circuits env req (json_dumps env (stamp_version v))"
  shows "emitted_status (dispatch_request env cfg view req kw) = Some 200
       \<and> emitted_body (dispatch_request env cfg view req kw)
           = Some (json_dumps env (stamp_version v))"
proof -
  let ?resp = "make_response (json_dumps env (stamp_version v)) 200 default_headers"
  have norm: "normalize_response env (RValue v) = Inr (?resp, default_headers)"
    by (simp add: normalize_response_def)
  have pass: "\<not> short_circuits env req (resp_data ?resp)"
    using assms(4) by (simp add: make_response_def)
  show ?thesis
    by (simp add: dispatch_emits [where view = view and req = req and kw = kw,
          OF assms(1,2) norm assms(3) pass] emitted_status_def emitted_body_def make_response_def)
qed

lemma dispatch_emits_pair:
  assumes "view (lower (req_method req)) = Some method"
    and "method req kw = (calls, Inr (RTuple2 d st))"
    and "cfg_ETAG cfg"
    and "\<not> short_circuits env req (json_dumps env (stamp_version d))"
  shows "emitted_status (dispatch_request env cfg view req kw) = Some st
       \<and> emitted_body (dispatch_request env cfg view req kw)
           = Some (json_dumps env (stamp_version d))"
proof -
  let ?resp = "make_response (json_dumps env (stamp_version d)) st default_headers"
  have norm: "normalize_response env (RTuple2 d st) = Inr (?resp, default_headers)"
    by (simp add: normalize_response_def)
  have pass: "\<not> short_circuits env req (resp_data ?resp)"
    using assms(4) by (simp add: make_response_def)
  show ?thesis
    by (simp add: dispatch_emits [where view = view and req = req and kw = kw,
          OF assms(1,2) norm assms(3) pass] emitted_status_def emitted_body_def make_response_def)
qed

lemma map_of_headers_set_other: "k' \<noteq> k \<Longrightarrow> map_of (headers_set k v hs) k' = map_of hs k'"
proof (induction hs)
  case Nil
  then show ?case by simp
next
  case (Cons p hs)
  have "map_of (filter (\<lambda>q. fst q \<noteq> k) hs) k' = map_of hs k'"
    using Cons.prems by (induction hs) auto
  with Cons show ?case
    by (cases p) auto
qed

lemma dispatch_emits_triple:
  assumes "view (lower (req_method req)) = Some method"
    and "method req kw = (calls, Inr (RTuple3 d st hs))"
    and "cfg_ETAG cfg"
    and "\<not> short_circuits env req (json_dumps env (stamp_version d))"
  shows "emitted_status (dispatch_request env cfg view req kw) = Some st
       \<and> emitted_body (dispatch_request env cfg view req kw)
           = Some (json_dumps env (stamp_version d))
       \<and> emitted_headers (dispatch_request env cfg view req kw)
           = Some (headers_set ''ETag''
                     (JStr (sha1_hexdigest env (json_dumps env (stamp_version d))))
                     (dict_set ''Content-Type'' (JStr ''application/vnd.api+json'') hs))"
proof -
  let ?hs = "dict_set ''Content-Type'' (JStr ''application/vnd.api+json'') hs"
  let ?resp = "make_response (json_dumps env (stamp_version d)) st ?hs"
  have norm: "normalize_response env (RTuple3 d st hs) = Inr (?resp, ?hs)"
    by (simp add: normalize_response_def Let_def)
  have pass: "\<not> short_circuits env req (resp_data ?resp)"
    using assms(4) by (simp add: make_response_def)
  show ?thesis
    by (simp add: dispatch_emits [where view = view and req = req and kw = kw,
          OF assms(1,2) norm assms(3) pass] emitted_status_def emitted_body_def
        emitted_headers_def make_response_def)
qed

lemma dispatch_precondition_failed:
  assumes "view (lower (req_method req)) = Some method"
    and "method req kw = (calls, Inr rv)"
    and "normalize_response env rv = Inr (resp, headers)"
    and "cfg_ETAG cfg"
    and "validator_list req ''If-Match'' \<noteq> []"
    and "sha1_hexdigest env (resp_data resp) \<notin> set (validator_list req ''If-Match'')"
    and "''*'' \<notin> set (validator_list req ''If-Match'')"
  shows "emitted_status (dispatch_request env cfg view req kw) = Some 412"
  by (simp add: dispatch_success [where view = view and req = req and kw = kw, OF assms(1-3)]
      etag_handling_fails [OF assms(4-7)] emitted_status_def)

section \<open>Single-item resource: the response of a delete\<close>

text \<open>
  Claim C3, as amended. In a single-item delete whose fetch returns an object, the data
  layer's \<^verbatim>\<open>delete_object\<close> is called exactly when the schema declares no
  \<^verbatim>\<open>deleted_at\<close> field, or the \<^verbatim>\<open>permanent\<close> query parameter is
  \<^verbatim>\<open>true\<close>, or \<^verbatim>\<open>SOFT_DELETE\<close> is off, and it is then the only call after
  the fetch; in every other case the only call after the fetch is \<^verbatim>\<open>update_object\<close>
  with the data \<^verbatim>\<open>{'deleted_at': now}\<close>. When the storage call returns, the handler
  returns the message envelope, and when moreover the ETag protocol is enabled and the
  conditional check does not short-circuit, the response has status 200 and its body is
  the encoded envelope.
\<close>

theorem C3_delete_soft_or_hard:
  assumes "get_object (res_data_layer res) kw
             (Some (map_of (req_args req) ''permanent'' = Some ''true'')) = Inr (Some obj)"
    and "view (lower (req_method req)) = Some (ResourceDetail_delete env cfg res)"
  shows "let permanent = (map_of (req_args req) ''permanent'' = Some ''true'');
             hard = (''deleted_at'' \<notin> set (map fst (declared_fields (res_schema res)))
                     \<or> permanent \<or> cfg_SOFT_DELETE cfg = False);
             stamp = JObj [(''deleted_at'', JStr (now_utc env))];
             message = JObj [(''meta'', JObj [(''message'', JStr ''Object successfully deleted'')])];
             returned = (if hard then delete_object (res_data_layer res) obj kw = Inr ()
                         else \<exists>obj'. update_object (res_data_layer res) obj stamp kw = Inr obj');
             out = dispatch_request env cfg view req kw
         in (DeleteObject obj kw \<in> set (fst out)) = hard
          \<and> (hard \<longrightarrow> fst out = [GetObject kw (Some permanent), DeleteObject obj kw])
          \<and> (\<not> hard \<longrightarrow> fst out = [GetObject kw (Some permanent), UpdateObject obj stamp kw])
          \<and> (returned \<longrightarrow>
                ResourceDetail_delete env cfg res req kw = (fst out, Inr (RValue message)))
          \<and> (returned \<and> cfg_ETAG cfg
                \<and> \<not> short_circuits env req (json_dumps env (stamp_version message)) \<longrightarrow>
                emitted_status out = Some 200
                \<and> emitted_body out = Some (json_dumps env (stamp_version message)))"
proof -
  let ?permanent = "map_of (req_args req) ''permanent'' = Some ''true''"
  let ?hard = "''deleted_at'' \<notin> set (map fst (declared_fields (res_schema res)))
                \<or> ?permanent \<or> cfg_SOFT_DELETE cfg = False"
  let ?stamp = "JObj [(''deleted_at'', JStr (now_utc env))]"
  let ?message = "JObj [(''meta'', JObj [(''message'', JStr ''Object successfully deleted'')])]"
  let ?returned = "if ?hard then delete_object (res_data_layer res) obj kw = Inr ()
                   else \<exists>obj'. update_object (res_data_layer res) obj ?stamp kw = Inr obj'"
  let ?h = "ResourceDetail_delete env cfg res req kw"
  note handler = delete_outcome [OF assms(1), where cfg = cfg and env = env, unfolded Let_def]
  have trace: "fst (dispatch_request env cfg view req kw) = fst ?h"
    using assms(2) by (rule dispatch_trace)
  have run: "?h = (fst ?h, Inr (RValue ?message))" if ?returned
    using that handler by (cases ?h) (auto split: if_splits)
  have emitted: "emitted_status (dispatch_request env cfg view req kw) = Some 200
                 \<and> emitted_body (dispatch_request env cfg view req kw)
                     = Some (json_dumps env (stamp_version ?message))"
    if ?returned and "cfg_ETAG cfg"
      and "\<not> short_circuits env req (json_dumps env (stamp_version ?message))"
    using dispatch_emits_value [where view = view and req = req and kw = kw,
        OF assms(2) run [OF that(1)] that(2,3)] .
  show ?thesis
    unfolding Let_def trace using handler run emitted by blast
qed

lemma etag_list_zzz: "etag_list ''zzz'' = [''zzz'']"
  by code_simp

lemma no_conditional_headers:
  "req_headers r = [] \<Longrightarrow> \<not> short_circuits env r body"
  by (simp add: short_circuits_def validator_list_def)

lemma delete_article_1:
  "req_args r = [] \<Longrightarrow>
   ResourceDetail_delete env0 (cfg0\<lparr>cfg_ETAG := True\<rparr>) res0 r [(''id'', UInt 1)]
     = ([GetObject [(''id'', UInt 1)] (Some False),
         UpdateObject obj1 (JObj [(''deleted_at'', JStr ''2017-06-01 10:00:00+00:00'')])
           [(''id'', UInt 1)]],
        Inr (RValue (JObj [(''meta'', JObj [(''message'', JStr ''Object successfully deleted'')])])))"
  by (simp add: ResourceDetail_delete_def res0_def dl0_def schema0_def cfg0_def env0_def)

text \<open>
  With the protocol enabled and no conditional header, a delete of article 1
  soft-deletes it and is answered with 200 and the encoded envelope.
\<close>

theorem C3_delete_soft_or_hard_witness:
  "get_object (res_data_layer res0) [(''id'', UInt 1)]
      (Some (map_of (req_args (req0\<lparr>req_method := ''DELETE''\<rparr>)) ''permanent'' = Some ''true''))
     = Inr (Some obj1)
   \<and> cfg_ETAG (cfg0\<lparr>cfg_ETAG := True\<rparr>)
   \<and> fst (dispatch_request env0 (cfg0\<lparr>cfg_ETAG := True\<rparr>)
             (ResourceDetail env0 (cfg0\<lparr>cfg_ETAG := True\<rparr>) res0)
             (req0\<lparr>req_method := ''DELETE''\<rparr>) [(''id'', UInt 1)])
       = [GetObject [(''id'', UInt 1)] (Some False),
          UpdateObject obj1 (JObj [(''deleted_at'', JStr ''2017-06-01 10:00:00+00:00'')])
            [(''id'', UInt 1)]]
   \<and> emitted_status (dispatch_request env0 (cfg0\<lparr>cfg_ETAG := True\<rparr>)
             (ResourceDetail env0 (cfg0\<lparr>cfg_ETAG := True\<rparr>) res0)
             (req0\<lparr>req_method := ''DELETE''\<rparr>) [(''id'', UInt 1)]) = Some 200
   \<and> emitted_body (dispatch_request env0 (cfg0\<lparr>cfg_ETAG := True\<rparr>)
             (ResourceDetail env0 (cfg0\<lparr>cfg_ETAG := True\<rparr>) res0)
             (req0\<lparr>req_method := ''DELETE''\<rparr>) [(''id'', UInt 1)]) = Some ''metajsonapi''"
proof -
  let ?cfg = "cfg0\<lparr>cfg_ETAG := True\<rparr>"
  let ?req = "req0\<lparr>req_method := ''DELETE''\<rparr>"
  let ?kw = "[(''id'', UInt 1)]"
  let ?stamp = "JObj [(''deleted_at'', JStr ''2017-06-01 10:00:00+00:00'')]"
  let ?message = "JObj [(''meta'', JObj [(''message'', JStr ''Object successfully deleted'')])]"
  have fetch: "get_object (res_data_layer res0) ?kw
                 (Some (map_of (req_args ?req) ''permanent'' = Some ''true'')) = Inr (Some obj1)"
    by (simp add: res0_def dl0_def)
  have view: "ResourceDetail env0 ?cfg res0 (lower (req_method ?req))
                = Some (ResourceDetail_delete env0 ?cfg res0)"
    by (simp add: ResourceDetail_def lower_DELETE)
  have flag: "cfg_ETAG ?cfg"
    by simp
  have soft: "\<not> (''deleted_at'' \<notin> set (map fst (declared_fields (res_schema res0)))
                 \<or> map_of (req_args ?req) ''permanent'' = Some ''true''
                 \<or> cfg_SOFT_DELETE ?cfg = False)"
    by (simp add: res0_def schema0_def req0_def cfg0_def)
  have now: "now_utc env0 = ''2017-06-01 10:00:00+00:00''"
    by (simp add: env0_def)
  have upd: "\<exists>obj'. update_object (res_data_layer res0) obj1 ?stamp ?kw = Inr obj'"
    by (simp add: res0_def dl0_def)
  have pass: "\<not> short_circuits env0 ?req (json_dumps env0 (stamp_version ?message))"
    by (rule no_conditional_headers) (simp add: req0_def)
  have body: "json_dumps env0 (stamp_version ?message) = ''metajsonapi''"
    by (simp add: env0_def stamp_version_def)
  have perm: "(map_of (req_args ?req) ''permanent'' = Some ''true'') = False"
    by (simp add: req0_def)
  note claim = C3_delete_soft_or_hard
    [where view = "ResourceDetail env0 ?cfg res0" and req = ?req and kw = ?kw and res = res0
       and env = env0 and cfg = ?cfg and obj = obj1, OF fetch view, unfolded Let_def now]
  have trace: "fst (dispatch_request env0 ?cfg (ResourceDetail env0 ?cfg res0) ?req ?kw)
                 = [GetObject ?kw (Some False), UpdateObject obj1 ?stamp ?kw]"
    using claim [THEN conjunct2, THEN conjunct2, THEN conjunct1] soft
    unfolding perm by blast
  have emitted: "emitted_status (dispatch_request env0 ?cfg (ResourceDetail env0 ?cfg res0) ?req ?kw)
                   = Some 200
                 \<and> emitted_body (dispatch_request env0 ?cfg (ResourceDetail env0 ?cfg res0) ?req ?kw)
                   = Some (json_dumps env0 (stamp_version ?message))"
    using claim [THEN conjunct2, THEN conjunct2, THEN conjunct2, THEN conjunct2] soft upd flag pass
    by (simp only: if_False simp_thms)
  from fetch flag trace emitted show ?thesis
    unfolding body by simp
qed

text \<open>
  Claim C3 as stated fails on a request whose \<^verbatim>\<open>If-Match\<close> does not match: the
  article is soft-deleted and the answer is the 412 of the conditional check, not 200.
\<close>

theorem C3_counterexample:
  "get_object (res_data_layer res0) [(''id'', UInt 1)]
      (Some (map_of (req_args (req0\<lparr>req_method := ''DELETE'',
                                    req_headers := [(''If-Match'', ''zzz'')]\<rparr>)) ''permanent''
               = Some ''true''))
     = Inr (Some obj1)
   \<and> fst (dispatch_request env0 (cfg0\<lparr>cfg_ETAG := True\<rparr>)
             (ResourceDetail env0 (cfg0\<lparr>cfg_ETAG := True\<rparr>) res0)
             (req0\<lparr>req_method := ''DELETE'', req_headers := [(''If-Match'', ''zzz'')]\<rparr>)
             [(''id'', UInt 1)])
       = [GetObject [(''id'', UInt 1)] (Some False),
          UpdateObject obj1 (JObj [(''deleted_at'', JStr ''2017-06-01 10:00:00+00:00'')])
            [(''id'', UInt 1)]]
   \<and> emitted_status (dispatch_request env0 (cfg0\<lparr>cfg_ETAG := True\<rparr>)
             (ResourceDetail env0 (cfg0\<lparr>cfg_ETAG := True\<rparr>) res0)
             (req0\<lparr>req_method := ''DELETE'', req_headers := [(''If-Match'', ''zzz'')]\<rparr>)
             [(''id'', UInt 1)]) = Some 412"
proof -
  let ?cfg = "cfg0\<lparr>cfg_ETAG := True\<rparr>"
  let ?req = "req0\<lparr>req_method := ''DELETE'', req_headers := [(''If-Match'', ''zzz'')]\<rparr>"
  let ?kw = "[(''id'', UInt 1)]"
  let ?message = "JObj [(''meta'', JObj [(''message'', JStr ''Object successfully deleted'')])]"
  let ?resp = "make_response (json_dumps env0 (stamp_version ?message)) 200 default_headers"
  have fetch: "get_object (res_data_layer res0) ?kw
                 (Some (map_of (req_args ?req) ''permanent'' = Some ''true'')) = Inr (Some obj1)"
    by (simp add: res0_def dl0_def)
  have view: "ResourceDetail env0 ?cfg res0 (lower (req_method ?req))
                = Some (ResourceDetail_delete env0 ?cfg res0)"
    by (simp add: ResourceDetail_def lower_DELETE)
  have run: "ResourceDetail_delete env0 ?cfg res0 ?req ?kw
     = ([GetObject ?kw (Some False),
         UpdateObject obj1 (JObj [(''deleted_at'', JStr ''2017-06-01 10:00:00+00:00'')]) ?kw],
        Inr (RValue ?message))"
    by (rule delete_article_1) (simp add: req0_def)
  have norm: "normalize_response env0 (RValue ?message) = Inr (?resp, default_headers)"
    by (simp add: normalize_response_def)
  have im: "validator_list ?req ''If-Match'' = [''zzz'']"
    by (simp add: validator_list_def etag_list_zzz)
  have hash: "sha1_hexdigest env0 (resp_data ?resp) = ''h-metajsonapi''"
    by (simp add: make_response_def env0_def stamp_version_def)
  have status: "emitted_status (dispatch_request env0 ?cfg (ResourceDetail env0 ?cfg res0) ?req ?kw)
                  = Some 412"
    by (rule dispatch_precondition_failed [where view = "ResourceDetail env0 ?cfg res0"
          and req = ?req and kw = ?kw, OF view run norm])
      (simp_all add: im hash)
  have trace: "fst (dispatch_request env0 ?cfg (ResourceDetail env0 ?cfg res0) ?req ?kw)
                 = fst (ResourceDetail_delete env0 ?cfg res0 ?req ?kw)"
    using view by (rule dispatch_trace)
  from fetch status trace run show ?thesis
    by simp
qed


section \<open>Collection resource: the response of a create\<close>

lemma lower_POST: "lower ''POST'' = ''post''"
  by code_simp

text \<open>
  Claim C5, as amended. In a create whose body loads without errors, when
  \<^verbatim>\<open>create_object\<close> returns and the serialized object has a self link under
  \<^verbatim>\<open>data.links\<close>, the handler returns the document with status 201 and a
  \<^verbatim>\<open>Location\<close> header that is this self link; when moreover the ETag protocol is
  enabled and the conditional check does not short-circuit, the response has status
  201, carries the \<^verbatim>\<open>Location\<close> header with this link, and its body is the
  encoded document, in which the self link is the same.
\<close>

theorem C5_post_created:
  assumes "schema_load (res_schema res)
             (compute_schema (post_schema_kwargs res) (req_args req)
                (qs_include env (req_args req))) (req_json req)
           = Loaded data errors"
    and "\<not> py_truthy errors"
    and "create_object (res_data_layer res) data kw = Inr obj"
    and "schema_dump (res_schema res)
           (compute_schema (post_schema_kwargs res) (req_args req)
              (qs_include env (req_args req))) obj = doc"
    and "map_of doc ''data'' = Some (JObj d)"
    and "map_of d ''links'' = Some (JObj links)"
    and "map_of links ''self'' = Some link"
    and "view (lower (req_method req)) = Some (ResourceList_post env res)"
    and "cfg_ETAG cfg"
    and "\<not> short_circuits env req (json_dumps env (stamp_version (JObj doc)))"
  shows "let out = dispatch_request env cfg view req kw
         in ResourceList_post env res req kw
              = ([CreateObject data kw], Inr (RTuple3 (JObj doc) 201 [(''Location'', link)]))
          \<and> fst out = [CreateObject data kw]
          \<and> emitted_status out = Some 201
          \<and> (\<exists>headers. emitted_headers out = Some headers
                 \<and> map_of headers ''Location'' = Some link)
          \<and> emitted_body out = Some (json_dumps env (stamp_version (JObj doc)))
          \<and> and_then (py_getitem (stamp_version (JObj doc)) ''data'') (\<lambda>d.
                and_then (py_getitem d ''links'') (\<lambda>l. py_getitem l ''self'')) = Inr link"
proof -
  note handler = post_created_outcome [OF assms(1-7)]
  have run: "ResourceList_post env res req kw
              = ([CreateObject data kw], Inr (RTuple3 (JObj doc) 201 [(''Location'', link)]))"
    using handler by blast
  have body: "and_then (py_getitem (stamp_version (JObj doc)) ''data'') (\<lambda>d.
                and_then (py_getitem d ''links'') (\<lambda>l. py_getitem l ''self'')) = Inr link"
    using handler by blast
  have trace: "fst (dispatch_request env cfg view req kw) = [CreateObject data kw]"
    using dispatch_trace [where view = view and req = req and kw = kw, OF assms(8)] run
    by simp
  note emitted = dispatch_emits_triple [where view = view and req = req and kw = kw,
      OF assms(8) run assms(9,10)]
  have location: "map_of (headers_set ''ETag''
                     (JStr (sha1_hexdigest env (json_dumps env (stamp_version (JObj doc)))))
                     (dict_set ''Content-Type'' (JStr ''application/vnd.api+json'')
                        [(''Location'', link)])) ''Location'' = Some link"
    by (simp add: map_of_headers_set_other map_of_dict_set)
  show ?thesis
    unfolding Let_def using run trace emitted location body by simp
qed

text \<open>
  With the protocol enabled and no conditional header, creating an article is answered
  with 201 and the location of article 1.
\<close>

theorem C5_post_created_witness:
  "create_object (res_data_layer res0) (JObj [(''title'', JStr ''Hello'')]) [] = Inr obj1
   \<and> cfg_ETAG (cfg0\<lparr>cfg_ETAG := True\<rparr>)
   \<and> fst (dispatch_request env0 (cfg0\<lparr>cfg_ETAG := True\<rparr>)
            (\<lambda>name. if name = ''post'' then Some (ResourceList_post env0 res0) else None)
            (req0\<lparr>req_method := ''POST'', req_path := ''/articles'',
                  req_json := JObj [(''data'', JObj [(''attributes'', JObj [(''title'', JStr ''Hello'')])])]\<rparr>)
            [])
       = [CreateObject (JObj [(''title'', JStr ''Hello'')]) []]
   \<and> emitted_status (dispatch_request env0 (cfg0\<lparr>cfg_ETAG := True\<rparr>)
            (\<lambda>name. if name = ''post'' then Some (ResourceList_post env0 res0) else None)
            (req0\<lparr>req_method := ''POST'', req_path := ''/articles'',
                  req_json := JObj [(''data'', JObj [(''attributes'', JObj [(''title'', JStr ''Hello'')])])]\<rparr>)
            [])
       = Some 201
   \<and> emitted_headers (dispatch_request env0 (cfg0\<lparr>cfg_ETAG := True\<rparr>)
            (\<lambda>name. if name = ''post'' then Some (ResourceList_post env0 res0) else None)
            (req0\<lparr>req_method := ''POST'', req_path := ''/articles'',
                  req_json := JObj [(''data'', JObj [(''attributes'', JObj [(''title'', JStr ''Hello'')])])]\<rparr>)
            [])
       = Some [(''Location'', JStr ''/articles/1''),
               (''Content-Type'', JStr ''application/vnd.api+json''),
               (''ETag'', JStr ''h-datalinksmetajsonapi'')]"
proof -
  let ?cfg = "cfg0\<lparr>cfg_ETAG := True\<rparr>"
  let ?view = "\<lambda>name. if name = ''post'' then Some (ResourceList_post env0 res0) else None"
  let ?data = "JObj [(''title'', JStr ''Hello'')]"
  let ?req = "req0\<lparr>req_method := ''POST'', req_path := ''/articles'',
              req_json := JObj [(''data'', JObj [(''attributes'', ?data)])]\<rparr>"
  let ?doc = "[(''data'', obj1), (''links'', JObj [(''self'', JStr ''/articles/1'')]),
               (''meta'', JObj [(''include'', JList [])])]"
  let ?d = "[(''id'', JStr ''1''), (''title'', JStr ''Hello''),
             (''links'', JObj [(''self'', JStr ''/articles/1'')])]"
  have load: "schema_load (res_schema res0)
             (compute_schema (post_schema_kwargs res0) (req_args ?req)
                (qs_include env0 (req_args ?req))) (req_json ?req)
           = Loaded ?data (JObj [])"
    by (simp add: res0_def schema0_def)
  have ok: "\<not> py_truthy (JObj [])"
    by simp
  have create: "create_object (res_data_layer res0) ?data [] = Inr obj1"
    by (simp add: res0_def dl0_def)
  have dump: "schema_dump (res_schema res0)
           (compute_schema (post_schema_kwargs res0) (req_args ?req)
              (qs_include env0 (req_args ?req))) obj1 = ?doc"
    by (simp add: res0_def schema0_def req0_def env0_def compute_schema_def)
  have d: "map_of ?doc ''data'' = Some (JObj ?d)"
    by (simp add: obj1_def)
  have l: "map_of ?d ''links'' = Some (JObj [(''self'', JStr ''/articles/1'')])"
    by simp
  have s: "map_of [(''self'', JStr ''/articles/1'')] ''self'' = Some (JStr ''/articles/1'')"
    by simp
  have view: "?view (lower (req_method ?req)) = Some (ResourceList_post env0 res0)"
    by (simp add: lower_POST)
  have flag: "cfg_ETAG ?cfg"
    by simp
  have pass: "\<not> short_circuits env0 ?req (json_dumps env0 (stamp_version (JObj ?doc)))"
    by (rule no_conditional_headers) (simp add: req0_def)
  have run: "ResourceList_post env0 res0 ?req []
      = ([CreateObject ?data []], Inr (RTuple3 (JObj ?doc) 201 [(''Location'', JStr ''/articles/1'')]))"
    and trace: "fst (dispatch_request env0 ?cfg ?view ?req []) = [CreateObject ?data []]"
    and status: "emitted_status (dispatch_request env0 ?cfg ?view ?req []) = Some 201"
    using C5_post_created [where view = ?view and req = ?req and kw = "[]" and cfg = ?cfg,
        OF load ok create dump d l s view flag pass]
    unfolding Let_def by blast+
  have body: "json_dumps env0 (stamp_version (JObj ?doc)) = ''datalinksmetajsonapi''"
    by (simp add: env0_def stamp_version_def)
  have hash: "sha1_hexdigest env0 ''datalinksmetajsonapi'' = ''h-datalinksmetajsonapi''"
    by (simp add: env0_def)
  have headers: "emitted_headers (dispatch_request env0 ?cfg ?view ?req [])
       = Some [(''Location'', JStr ''/articles/1''),
               (''Content-Type'', JStr ''application/vnd.api+json''),
               (''ETag'', JStr ''h-datalinksmetajsonapi'')]"
    using dispatch_emits_triple [where view = ?view and req = ?req and kw = "[]" and cfg = ?cfg,
        OF view run flag pass]
    unfolding body hash by simp
  from create flag trace status headers show ?thesis
    by simp
qed

text \<open>
  Claim C5 as stated fails on a schema that serializes no self link: the load has no
  errors, the object is created, and the lookup of the link raises \<^verbatim>\<open>KeyError\<close>,
  which the dispatcher answers with 500.
\<close>

theorem C5_counterexample:
  "schema_load (schema0\<lparr>schema_dump := (\<lambda>si obj. [(''data'', JObj [(''id'', JStr ''1'')])])\<rparr>)
      (compute_schema [] [] [])
      (JObj [(''data'', JObj [(''attributes'', JObj [(''title'', JStr ''Hello'')])])])
     = Loaded (JObj [(''title'', JStr ''Hello'')]) (JObj [])
   \<and> fst (dispatch_request env0 (cfg0\<lparr>cfg_ETAG := True\<rparr>)
            (\<lambda>name. if name = ''post''
               then Some (ResourceList_post env0
                      (res0\<lparr>res_schema := schema0\<lparr>schema_dump :=
                                (\<lambda>si obj. [(''data'', JObj [(''id'', JStr ''1'')])])\<rparr>\<rparr>))
               else None)
            (req0\<lparr>req_method := ''POST'', req_path := ''/articles'',
                  req_json := JObj [(''data'', JObj [(''attributes'', JObj [(''title'', JStr ''Hello'')])])]\<rparr>)
            [])
       = [CreateObject (JObj [(''title'', JStr ''Hello'')]) []]
   \<and> emitted_status (dispatch_request env0 (cfg0\<lparr>cfg_ETAG := True\<rparr>)
            (\<lambda>name. if name = ''post''
               then Some (ResourceList_post env0
                      (res0\<lparr>res_schema := schema0\<lparr>schema_dump :=
                                (\<lambda>si obj. [(''data'', JObj [(''id'', JStr ''1'')])])\<rparr>\<rparr>))
               else None)
            (req0\<lparr>req_method := ''POST'', req_path := ''/articles'',
                  req_json := JObj [(''data'', JObj [(''attributes'', JObj [(''title'', JStr ''Hello'')])])]\<rparr>)
            [])
       = Some 500"
proof -
  let ?res = "res0\<lparr>res_schema := schema0\<lparr>schema_dump :=
                                (\<lambda>si obj. [(''data'', JObj [(''id'', JStr ''1'')])])\<rparr>\<rparr>"
  let ?req = "req0\<lparr>req_method := ''POST'', req_path := ''/articles'',
                  req_json := JObj [(''data'', JObj [(''attributes'', JObj [(''title'', JStr ''Hello'')])])]\<rparr>"
  have load: "schema_load (schema0\<lparr>schema_dump := (\<lambda>si obj. [(''data'', JObj [(''id'', JStr ''1'')])])\<rparr>)
      (compute_schema [] [] [])
      (JObj [(''data'', JObj [(''attributes'', JObj [(''title'', JStr ''Hello'')])])])
     = Loaded (JObj [(''title'', JStr ''Hello'')]) (JObj [])"
    by (simp add: schema0_def)
  have run: "ResourceList_post env0 ?res ?req []
               = ([CreateObject (JObj [(''title'', JStr ''Hello'')]) []], Inl (PyError ''KeyError''))"
    by (simp add: ResourceList_post_def res0_def schema0_def dl0_def and_then_def Let_def)
  have "dispatch_request env0 (cfg0\<lparr>cfg_ETAG := True\<rparr>)
            (\<lambda>name. if name = ''post'' then Some (ResourceList_post env0 ?res) else None) ?req []
      = ([CreateObject (JObj [(''title'', JStr ''Hello'')]) []],
         Inr (Some (error_response env0 JsonApiException (JObj [(''pointer'', JStr [])])
                      ''Unknown error'' default_headers)))"
    by (simp add: dispatch_request_def lower_POST run cfg0_def)
  with load show ?thesis
    by (simp add: emitted_status_def)
qed


section \<open>Create and update: the response to a failed load\<close>

lemma dispatch_answers_pair:
  assumes "handler req kw = (calls, Inr (RTuple2 d st))"
    and "cfg_ETAG cfg \<and> view (lower (req_method req)) = Some handler
         \<and> \<not> short_circuits env req (json_dumps env (stamp_version d))"
  shows "fst (dispatch_request env cfg view req kw) = calls
       \<and> emitted_status (dispatch_request env cfg view req kw) = Some st
       \<and> emitted_body (dispatch_request env cfg view req kw)
           = Some (json_dumps env (stamp_version d))"
proof -
  from assms(2) have v: "view (lower (req_method req)) = Some handler"
    and e: "cfg_ETAG cfg"
    and p: "\<not> short_circuits env req (json_dumps env (stamp_version d))"
    by simp_all
  have "fst (dispatch_request env cfg view req kw) = calls"
    using dispatch_trace [where view = view and req = req and kw = kw, OF v] assms(1) by simp
  with dispatch_emits_pair [where view = view and req = req and kw = kw, OF v assms(1) e p]
  show ?thesis by simp
qed

lemma stamped_entries:
  assumes "list_all is_dict entries"
  shows "\<exists>stamped. py_getitem (stamp_version (error_document st ti messages entries)) ''errors''
                 = Inr (JList stamped)
              \<and> length stamped = length entries
              \<and> (\<forall>i < length entries.
                    py_getitem (stamped ! i) ''status'' = Inr (JStr st)
                    \<and> py_getitem (stamped ! i) ''title'' = Inr (JStr ti)
                    \<and> (\<forall>k. k \<noteq> ''status'' \<and> k \<noteq> ''title'' \<longrightarrow>
                          py_getitem (stamped ! i) k = py_getitem (entries ! i) k))"
proof (intro exI conjI allI impI)
  show "py_getitem (stamp_version (error_document st ti messages entries)) ''errors''
          = Inr (JList (map (with_status_and_title st ti) entries))"
    by (simp add: error_document_def stamp_version_def map_of_dict_set)
  show "length (map (with_status_and_title st ti) entries) = length entries"
    by simp
next
  fix i assume i: "i < length entries"
  then have entry: "is_dict (entries ! i)"
    using assms by (simp add: list_all_length)
  from with_status_and_title_entry [OF entry, of st ti] i
  show "py_getitem (map (with_status_and_title st ti) entries ! i) ''status'' = Inr (JStr st)"
    and "py_getitem (map (with_status_and_title st ti) entries ! i) ''title'' = Inr (JStr ti)"
    by simp_all
  fix k assume "k \<noteq> ''status'' \<and> k \<noteq> ''title''"
  with with_status_and_title_entry [OF entry, of st ti] i
  show "py_getitem (map (with_status_and_title st ti) entries ! i) k = py_getitem (entries ! i) k"
    by simp
qed

text \<open>
  Claim C8, as amended. In a create and in an update, when \<^verbatim>\<open>schema.load\<close> raises
  \<^verbatim>\<open>IncorrectTypeError\<close> the handler returns the error document of the exception
  with status 409, every entry stamped with status \<^verbatim>\<open>'409'\<close> and title
  \<^verbatim>\<open>Incorrect type\<close>; when it raises \<^verbatim>\<open>ValidationError\<close>, or returns errors,
  the handler returns the error document with status 422, every entry stamped with
  status \<^verbatim>\<open>'422'\<close> and title \<^verbatim>\<open>Validation error\<close>. No call is made on the
  data layer. When the ETag protocol is enabled and the conditional check does not
  short-circuit, the response has that status and its body is the encoding of the one
  document, which has as many entries as the messages had, each stamped and with its
  other fields as they were. The messages are a dict whose \<^verbatim>\<open>errors\<close> entry is a
  list of dicts.
\<close>

theorem C8_load_errors:
  assumes "map_of messages ''errors'' = Some (JList entries)"
    and "list_all is_dict entries"
  shows "let post_schema = compute_schema (post_schema_kwargs res) (req_args req)
                             (qs_include env (req_args req));
             patch_schema = compute_schema (dict_set ''partial'' (JBool True) (patch_schema_kwargs res))
                              (req_args req) (qs_include env (req_args req));
             load_post = schema_load (res_schema res) post_schema (req_json req);
             load_patch = schema_load (res_schema res) patch_schema (req_json req);
             incorrect = error_document ''409'' ''Incorrect type'' messages entries;
             invalid = error_document ''422'' ''Validation error'' messages entries;
             answered = (\<lambda>h doc code.
               h req kw = ([], Inr (RTuple2 doc code))
               \<and> (\<forall>cfg view.
                     cfg_ETAG cfg \<and> view (lower (req_method req)) = Some h
                     \<and> \<not> short_circuits env req (json_dumps env (stamp_version doc)) \<longrightarrow>
                       fst (dispatch_request env cfg view req kw) = []
                       \<and> emitted_status (dispatch_request env cfg view req kw) = Some code
                       \<and> emitted_body (dispatch_request env cfg view req kw)
                           = Some (json_dumps env (stamp_version doc))))
         in (load_post = IncorrectTypeError (JObj messages) \<longrightarrow>
               answered (ResourceList_post env res) incorrect 409)
          \<and> (load_post = ValidationError (JObj messages)
                \<or> (\<exists>data. load_post = Loaded data (JObj messages)) \<longrightarrow>
               answered (ResourceList_post env res) invalid 422)
          \<and> (load_patch = IncorrectTypeError (JObj messages) \<longrightarrow>
               answered (ResourceDetail_patch env res) incorrect 409)
          \<and> (load_patch = ValidationError (JObj messages)
                \<or> (\<exists>data. load_patch = Loaded data (JObj messages)) \<longrightarrow>
               answered (ResourceDetail_patch env res) invalid 422)
          \<and> (\<exists>stamped. py_getitem (stamp_version incorrect) ''errors'' = Inr (JList stamped)
                \<and> length stamped = length entries
                \<and> (\<forall>i < length entries.
                      py_getitem (stamped ! i) ''status'' = Inr (JStr ''409'')
                      \<and> py_getitem (stamped ! i) ''title'' = Inr (JStr ''Incorrect type'')
                      \<and> (\<forall>k. k \<noteq> ''status'' \<and> k \<noteq> ''title'' \<longrightarrow>
                            py_getitem (stamped ! i) k = py_getitem (entries ! i) k)))
          \<and> (\<exists>stamped. py_getitem (stamp_version invalid) ''errors'' = Inr (JList stamped)
                \<and> length stamped = length entries
                \<and> (\<forall>i < length entries.
                      py_getitem (stamped ! i) ''status'' = Inr (JStr ''422'')
                      \<and> py_getitem (stamped ! i) ''title'' = Inr (JStr ''Validation error'')
                      \<and> (\<forall>k. k \<noteq> ''status'' \<and> k \<noteq> ''title'' \<longrightarrow>
                            py_getitem (stamped ! i) k = py_getitem (entries ! i) k)))"
proof -
  note handler = load_errors_outcome [OF assms, where res = res and req = req and env = env
      and kw = kw, unfolded Let_def]
  have answered: "h req kw = ([], Inr (RTuple2 doc code))
       \<and> (\<forall>cfg view.
             cfg_ETAG cfg \<and> view (lower (req_method req)) = Some h
             \<and> \<not> short_circuits env req (json_dumps env (stamp_version doc)) \<longrightarrow>
               fst (dispatch_request env cfg view req kw) = []
               \<and> emitted_status (dispatch_request env cfg view req kw) = Some code
               \<and> emitted_body (dispatch_request env cfg view req kw)
                   = Some (json_dumps env (stamp_version doc)))"
    if "h req kw = ([], Inr (RTuple2 doc code))" for h doc code
    using that
      dispatch_answers_pair [where handler = h and req = req and kw = kw and env = env, OF that]
    by blast
  have p1: "ResourceList_post env res req kw
              = ([], Inr (RTuple2 (error_document ''409'' ''Incorrect type'' messages entries) 409))"
    if "schema_load (res_schema res) (compute_schema (post_schema_kwargs res) (req_args req)
          (qs_include env (req_args req))) (req_json req) = IncorrectTypeError (JObj messages)"
    using handler that by blast
  have p2: "ResourceList_post env res req kw
              = ([], Inr (RTuple2 (error_document ''422'' ''Validation error'' messages entries) 422))"
    if "schema_load (res_schema res) (compute_schema (post_schema_kwargs res) (req_args req)
          (qs_include env (req_args req))) (req_json req) = ValidationError (JObj messages)
        \<or> (\<exists>data. schema_load (res_schema res) (compute_schema (post_schema_kwargs res) (req_args req)
          (qs_include env (req_args req))) (req_json req) = Loaded data (JObj messages))"
    using handler that by blast
  have q1: "ResourceDetail_patch env res req kw
              = ([], Inr (RTuple2 (error_document ''409'' ''Incorrect type'' messages entries) 409))"
    if "schema_load (res_schema res)
          (compute_schema (dict_set ''partial'' (JBool True) (patch_schema_kwargs res)) (req_args req)
          (qs_include env (req_args req))) (req_json req) = IncorrectTypeError (JObj messages)"
    using handler that by blast
  have q2: "ResourceDetail_patch env res req kw
              = ([], Inr (RTuple2 (error_document ''422'' ''Validation error'' messages entries) 422))"
    if "schema_load (res_schema res)
          (compute_schema (dict_set ''partial'' (JBool True) (patch_schema_kwargs res)) (req_args req)
          (qs_include env (req_args req))) (req_json req) = ValidationError (JObj messages)
        \<or> (\<exists>data. schema_load (res_schema res)
          (compute_schema (dict_set ''partial'' (JBool True) (patch_schema_kwargs res)) (req_args req)
          (qs_include env (req_args req))) (req_json req) = Loaded data (JObj messages))"
    using handler that by blast
  show ?thesis
    unfolding Let_def
  proof (intro conjI impI)
    show "\<exists>stamped. py_getitem (stamp_version (error_document ''409'' ''Incorrect type'' messages entries))
              ''errors'' = Inr (JList stamped)
            \<and> length stamped = length entries
            \<and> (\<forall>i < length entries.
                  py_getitem (stamped ! i) ''status'' = Inr (JStr ''409'')
                  \<and> py_getitem (stamped ! i) ''title'' = Inr (JStr ''Incorrect type'')
                  \<and> (\<forall>k. k \<noteq> ''status'' \<and> k \<noteq> ''title'' \<longrightarrow>
                        py_getitem (stamped ! i) k = py_getitem (entries ! i) k))"
      by (rule stamped_entries [OF assms(2)])
    show "\<exists>stamped. py_getitem (stamp_version (error_document ''422'' ''Validation error'' messages entries))
              ''errors'' = Inr (JList stamped)
            \<and> length stamped = length entries
            \<and> (\<forall>i < length entries.
                  py_getitem (stamped ! i) ''status'' = Inr (JStr ''422'')
                  \<and> py_getitem (stamped ! i) ''title'' = Inr (JStr ''Validation error'')
                  \<and> (\<forall>k. k \<noteq> ''status'' \<and> k \<noteq> ''title'' \<longrightarrow>
                        py_getitem (stamped ! i) k = py_getitem (entries ! i) k))"
      by (rule stamped_entries [OF assms(2)])
  qed (use answered p1 p2 q1 q2 in blast)+
qed

text \<open>
  With the protocol enabled and no conditional header, a create without attributes is
  answered with 422 and one document that holds both errors, stamped.
\<close>

theorem C8_load_errors_witness:
  "map_of [(''errors'', JList [JObj [(''detail'', JStr ''No attributes'')],
                               JObj [(''detail'', JStr ''No title'')]])] ''errors''
     = Some (JList [JObj [(''detail'', JStr ''No attributes'')], JObj [(''detail'', JStr ''No title'')]])
   \<and> list_all is_dict [JObj [(''detail'', JStr ''No attributes'')], JObj [(''detail'', JStr ''No title'')]]
   \<and> ResourceList_post env0 res0
        (req0\<lparr>req_method := ''POST'', req_json := JObj [(''data'', JObj [])]\<rparr>) []
       = ([], Inr (RTuple2
            (JObj [(''errors'',
               JList [JObj [(''detail'', JStr ''No attributes''), (''status'', JStr ''422''),
                            (''title'', JStr ''Validation error'')],
                      JObj [(''detail'', JStr ''No title''), (''status'', JStr ''422''),
                            (''title'', JStr ''Validation error'')]])])
            422))
   \<and> fst (dispatch_request env0 (cfg0\<lparr>cfg_ETAG := True\<rparr>)
            (\<lambda>name. if name = ''post'' then Some (ResourceList_post env0 res0) else None)
            (req0\<lparr>req_method := ''POST'', req_json := JObj [(''data'', JObj [])]\<rparr>) []) = []
   \<and> emitted_status (dispatch_request env0 (cfg0\<lparr>cfg_ETAG := True\<rparr>)
            (\<lambda>name. if name = ''post'' then Some (ResourceList_post env0 res0) else None)
            (req0\<lparr>req_method := ''POST'', req_json := JObj [(''data'', JObj [])]\<rparr>) [])
       = Some 422
   \<and> emitted_body (dispatch_request env0 (cfg0\<lparr>cfg_ETAG := True\<rparr>)
            (\<lambda>name. if name = ''post'' then Some (ResourceList_post env0 res0) else None)
            (req0\<lparr>req_method := ''POST'', req_json := JObj [(''data'', JObj [])]\<rparr>) [])
       = Some ''errorsjsonapi''"
proof -
  let ?entries = "[JObj [(''detail'', JStr ''No attributes'')], JObj [(''detail'', JStr ''No title'')]]"
  let ?messages = "[(''errors'', JList ?entries)]"
  let ?req = "req0\<lparr>req_method := ''POST'', req_json := JObj [(''data'', JObj [])]\<rparr>"
  let ?cfg = "cfg0\<lparr>cfg_ETAG := True\<rparr>"
  let ?view = "\<lambda>name. if name = ''post'' then Some (ResourceList_post env0 res0) else None"
  let ?doc = "error_document ''422'' ''Validation error'' ?messages ?entries"
  have a: "map_of ?messages ''errors'' = Some (JList ?entries)"
    by simp
  have b: "list_all is_dict ?entries"
    by simp
  have post: "schema_load (res_schema res0)
                (compute_schema (post_schema_kwargs res0) (req_args ?req)
                   (qs_include env0 (req_args ?req))) (req_json ?req)
              = ValidationError (JObj ?messages)"
    by (simp add: res0_def schema0_def)
  have doc: "?doc
       = JObj [(''errors'',
               JList [JObj [(''detail'', JStr ''No attributes''), (''status'', JStr ''422''),
                            (''title'', JStr ''Validation error'')],
                      JObj [(''detail'', JStr ''No title''), (''status'', JStr ''422''),
                            (''title'', JStr ''Validation error'')]])]"
    by (simp add: error_document_def with_status_and_title_def)
  have body: "json_dumps env0 (stamp_version ?doc) = ''errorsjsonapi''"
    unfolding doc by (simp add: env0_def stamp_version_def)
  have flag: "cfg_ETAG ?cfg"
    by simp
  have view: "?view (lower (req_method ?req)) = Some (ResourceList_post env0 res0)"
    by (simp add: lower_POST)
  have pass: "\<not> short_circuits env0 ?req (json_dumps env0 (stamp_version ?doc))"
    by (rule no_conditional_headers) (simp add: req0_def)
  note claim = C8_load_errors [OF a b, where res = res0 and req = ?req and env = env0
      and kw = "[]", unfolded Let_def]
  have answered: "ResourceList_post env0 res0 ?req [] = ([], Inr (RTuple2 ?doc 422))
     \<and> (\<forall>cfg view.
           cfg_ETAG cfg \<and> view (lower (req_method ?req)) = Some (ResourceList_post env0 res0)
           \<and> \<not> short_circuits env0 ?req (json_dumps env0 (stamp_version ?doc)) \<longrightarrow>
             fst (dispatch_request env0 cfg view ?req []) = []
             \<and> emitted_status (dispatch_request env0 cfg view ?req []) = Some 422
             \<and> emitted_body (dispatch_request env0 cfg view ?req [])
                 = Some (json_dumps env0 (stamp_version ?doc)))"
    by (rule claim [THEN conjunct2, THEN conjunct1, THEN mp, OF disjI1 [OF post]])
  from answered have run: "ResourceList_post env0 res0 ?req [] = ([], Inr (RTuple2 ?doc 422))"
    by (rule conjunct1)
  from answered [THEN conjunct2, THEN spec, THEN spec, THEN mp, of ?cfg ?view] flag view pass
  have emitted: "fst (dispatch_request env0 ?cfg ?view ?req []) = []
             \<and> emitted_status (dispatch_request env0 ?cfg ?view ?req []) = Some 422
             \<and> emitted_body (dispatch_request env0 ?cfg ?view ?req [])
                 = Some (json_dumps env0 (stamp_version ?doc))"
    by (simp only: simp_thms)
  from a b run emitted show ?thesis
    unfolding body unfolding doc by simp
qed

text \<open>
  Claim C8 as stated fails on a request whose \<^verbatim>\<open>If-Match\<close> does not match: the
  handler returns the error document with 422, and the answer is the 412 of the
  conditional check.
\<close>

theorem C8_counterexample:
  "schema_load (res_schema res0)
      (compute_schema (post_schema_kwargs res0) [] (qs_include env0 []))
      (JObj [(''data'', JObj [])])
     = ValidationError
         (JObj [(''errors'', JList [JObj [(''detail'', JStr ''No attributes'')],
                                    JObj [(''detail'', JStr ''No title'')]])])
   \<and> cfg_ETAG (cfg0\<lparr>cfg_ETAG := True\<rparr>)
   \<and> emitted_status (dispatch_request env0 (cfg0\<lparr>cfg_ETAG := True\<rparr>)
            (\<lambda>name. if name = ''post'' then Some (ResourceList_post env0 res0) else None)
            (req0\<lparr>req_method := ''POST'', req_headers := [(''If-Match'', ''zzz'')],
                  req_json := JObj [(''data'', JObj [])]\<rparr>) [])
       = Some 412"
proof -
  let ?entries = "[JObj [(''detail'', JStr ''No attributes'')], JObj [(''detail'', JStr ''No title'')]]"
  let ?messages = "[(''errors'', JList ?entries)]"
  let ?req = "req0\<lparr>req_method := ''POST'', req_headers := [(''If-Match'', ''zzz'')],
                   req_json := JObj [(''data'', JObj [])]\<rparr>"
  let ?cfg = "cfg0\<lparr>cfg_ETAG := True\<rparr>"
  let ?view = "\<lambda>name. if name = ''post'' then Some (ResourceList_post env0 res0) else None"
  let ?doc = "error_document ''422'' ''Validation error'' ?messages ?entries"
  let ?resp = "make_response (json_dumps env0 (stamp_version ?doc)) 422 default_headers"
  have load: "schema_load (res_schema res0)
      (compute_schema (post_schema_kwargs res0) [] (qs_include env0 []))
      (JObj [(''data'', JObj [])]) = ValidationError (JObj ?messages)"
    by (simp add: res0_def schema0_def)
  have load': "schema_load (res_schema res0)
                (compute_schema (post_schema_kwargs res0) (req_args ?req)
                   (qs_include env0 (req_args ?req))) (req_json ?req)
              = ValidationError (JObj ?messages)"
    by (simp add: res0_def schema0_def)
  have run: "ResourceList_post env0 res0 ?req [] = ([], Inr (RTuple2 ?doc 422))"
    using load' return_errors_dicts [of ?messages ?entries "''422''" "''Validation error''" 422]
    by (simp add: ResourceList_post_def Let_def)
  have view: "?view (lower (req_method ?req)) = Some (ResourceList_post env0 res0)"
    by (simp add: lower_POST)
  have norm: "normalize_response env0 (RTuple2 ?doc 422) = Inr (?resp, default_headers)"
    by (simp add: normalize_response_def)
  have im: "validator_list ?req ''If-Match'' = [''zzz'']"
    by (simp add: validator_list_def etag_list_zzz)
  have hash: "sha1_hexdigest env0 (resp_data ?resp) = ''h-errorsjsonapi''"
    by (simp add: make_response_def env0_def stamp_version_def error_document_def)
  have "emitted_status (dispatch_request env0 ?cfg ?view ?req []) = Some 412"
    by (rule dispatch_precondition_failed [where view = ?view and req = ?req and kw = "[]",
          OF view run norm])
      (simp_all add: im hash)
  with load show ?thesis
    by simp
qed


section \<open>Relationship resource: the responses\<close>











end
